theory Spec2Isabelle
  imports Main "HOL-Library.Sublist" "HOL-Library.AList"
begin

section \<open>Python text\<close>

text \<open>
  A Python \<open>str\<close> is modelled by the bytes of its UTF-8 encoding, as a \<^typ>\<open>string\<close>.
  The Cyrillic captions of the program are written out byte by byte.
\<close>

text \<open>
  The characters for which \<open>str.isspace\<close> holds, each by its encoding: U+0009 to U+000D,
  U+001C to U+0020, U+0085, U+00A0, U+1680, U+2000 to U+200A, U+2028, U+2029, U+202F,
  U+205F and U+3000.
\<close>

definition whitespace :: "string list" where
  "whitespace =
     [[CHR 0x09], [CHR 0x0A], [CHR 0x0B], [CHR 0x0C], [CHR 0x0D],
      [CHR 0x1C], [CHR 0x1D], [CHR 0x1E], [CHR 0x1F], [CHR 0x20],
      [CHR 0xC2, CHR 0x85], [CHR 0xC2, CHR 0xA0], [CHR 0xE1, CHR 0x9A, CHR 0x80],
      [CHR 0xE2, CHR 0x80, CHR 0x80], [CHR 0xE2, CHR 0x80, CHR 0x81], [CHR 0xE2, CHR 0x80, CHR 0x82],
      [CHR 0xE2, CHR 0x80, CHR 0x83], [CHR 0xE2, CHR 0x80, CHR 0x84], [CHR 0xE2, CHR 0x80, CHR 0x85],
      [CHR 0xE2, CHR 0x80, CHR 0x86], [CHR 0xE2, CHR 0x80, CHR 0x87], [CHR 0xE2, CHR 0x80, CHR 0x88],
      [CHR 0xE2, CHR 0x80, CHR 0x89], [CHR 0xE2, CHR 0x80, CHR 0x8A], [CHR 0xE2, CHR 0x80, CHR 0xA8],
      [CHR 0xE2, CHR 0x80, CHR 0xA9], [CHR 0xE2, CHR 0x80, CHR 0xAF], [CHR 0xE2, CHR 0x81, CHR 0x9F],
      [CHR 0xE3, CHR 0x80, CHR 0x80]]"

text \<open>The length of the pattern that starts \<open>s\<close>, or 0 when none does.\<close>

definition head_len :: "string list \<Rightarrow> string \<Rightarrow> nat" where
  "head_len pats s = (case List.find (\<lambda>w. prefix w s) pats of None \<Rightarrow> 0 | Some w \<Rightarrow> length w)"

function strip_front :: "string list \<Rightarrow> string \<Rightarrow> string" where
  "strip_front pats s =
     (if head_len pats s = 0 then s else strip_front pats (drop (head_len pats s) s))"
  by pat_completeness auto
termination
proof (relation "measure (\<lambda>(pats, s). length s)")
  fix pats :: "string list" and s :: string
  assume "head_len pats s \<noteq> 0"
  moreover have "head_len pats s \<le> length s"
    by (auto simp: head_len_def find_Some_iff prefix_length_le split: option.splits)
  ultimately show "((pats, drop (head_len pats s) s), (pats, s)) \<in> measure (\<lambda>(pats, s). length s)"
    by simp
qed simp

declare strip_front.simps [simp del]

definition lstrip :: "string \<Rightarrow> string" where
  "lstrip s = strip_front whitespace s"

definition rstrip :: "string \<Rightarrow> string" where
  "rstrip s = rev (strip_front (map rev whitespace) (rev s))"

text \<open>\<open>str.strip()\<close>: whitespace is removed from the left end, then from the right end.\<close>

definition strip :: "string \<Rightarrow> string" where
  "strip s = rstrip (lstrip s)"

text \<open>
  \<open>str.lower()\<close> on the ASCII letters. Python also lowers letters outside ASCII; none of
  them lowers to a text with \<open>e\<close>, \<open>r\<close> or \<open>o\<close> in it, and their bytes are all above 0x7F, so
  the test \<open>"error" in output.lower()\<close> is the same.
\<close>

definition lower_char :: "char \<Rightarrow> char" where
  "lower_char c =
     (case map_of (zip ''ABCDEFGHIJKLMNOPQRSTUVWXYZ'' ''abcdefghijklmnopqrstuvwxyz'') c of
        None \<Rightarrow> c
      | Some d \<Rightarrow> d)"

definition lower :: "string \<Rightarrow> string" where
  "lower s = map lower_char s"

text \<open>\<open>sub in s\<close> for two strings: \<open>sub\<close> occurs in \<open>s\<close> as a contiguous run.\<close>

fun str_in :: "string \<Rightarrow> string \<Rightarrow> bool" where
  "str_in sub [] = (sub = [])"
| "str_in sub (c # cs) = (prefix sub (c # cs) \<or> str_in sub cs)"

text \<open>\<open>s.split(sep)\<close> for a one-character separator.\<close>

fun split_on :: "char \<Rightarrow> string \<Rightarrow> string list" where
  "split_on sep [] = [[]]"
| "split_on sep (c # cs) =
     (if c = sep then [] # split_on sep cs
      else (case split_on sep cs of [] \<Rightarrow> [[c]] | l # ls \<Rightarrow> (c # l) # ls))"

text \<open>\<open>s.partition(sep)\<close> for a one-character separator.\<close>

definition str_partition :: "char \<Rightarrow> string \<Rightarrow> string \<times> string \<times> string" where
  "str_partition sep s =
     (if sep \<in> set s
      then (takeWhile (\<lambda>c. c \<noteq> sep) s, [sep], tl (dropWhile (\<lambda>c. c \<noteq> sep) s))
      else (s, [], []))"

text \<open>\<open>sep.join(xs)\<close>.\<close>

fun join :: "string \<Rightarrow> string list \<Rightarrow> string" where
  "join sep [] = []"
| "join sep [x] = x"
| "join sep (x # y # ys) = x @ sep @ join sep (y # ys)"

text \<open>\<open>str(n)\<close> for an integer.\<close>

fun str_nat :: "nat \<Rightarrow> string" where
  "str_nat n = (if n < 10 then [''0123456789'' ! n]
                else str_nat (n div 10) @ [''0123456789'' ! (n mod 10)])"

declare str_nat.simps [simp del]

definition str_int :: "int \<Rightarrow> string" where
  "str_int i = (if i < 0 then ''-'' @ str_nat (nat (- i)) else str_nat (nat i))"


section \<open>The data model\<close>

record ClusterConfig =
  rac_path :: string
  ras_host :: string
  ras_port :: int
  cluster_user :: string
  cluster_pwd :: string
  infobase_user :: string
  infobase_pwd :: string
  inactive_hours :: int

record Cluster =
  cluster_id :: string
  host :: string
  port :: string
  name :: string

record WorkingServer =
  server_id :: string
  name :: string
  host :: string
  port :: string
  port_range :: string
  cluster_port :: string

text \<open>
  A \<open>datetime\<close>: the reading of the wall clock in microseconds since 0001-01-01 00:00, and
  the offset to UTC in microseconds when the value is aware of a time zone
  (\<open>fromisoformat\<close> returns an aware value for a text that ends with an offset).
\<close>

datatype datetime = Datetime (wall: int) (utcoffset: "int option")

record InfoBase =
  infobase_id :: string
  name :: string
  descr :: string
  sessions_deny :: string
  scheduled_jobs_deny :: string
  sessions_count :: int
  last_session_time :: "datetime option"
  is_inactive :: bool

record Session =
  session_id :: string
  infobase_id :: string
  user_name :: string
  app_id :: string
  started_at :: "datetime option"
  last_active_at :: "datetime option"

record ClusterReport =
  generated_at :: datetime
  clusters :: "Cluster list"
  servers :: "WorkingServer list"
  infobases :: "InfoBase list"
  sessions :: "Session list"
  inactive_bases :: "InfoBase list"
  errors :: "string list"

text \<open>The exceptions that the statements of the program can raise on their data.\<close>

datatype exn = TypeError | OverflowError | ValueError


section \<open>The RAC client\<close>

text \<open>
  What \<open>subprocess.run\<close> does with a command line: it completes with an exit status and the
  two output texts, it runs into the timeout, or it raises something else (the binary is
  missing, the output does not decode).
\<close>

datatype proc_result =
    Completed (returncode: int) (stdout: string) (stderr: string)
  | TimeoutExpired
  | OtherException

text \<open>
  The external utility answers a command line, and its answer may depend on the commands it
  was given before. The commands issued so far are the state that every operation threads.
\<close>

type_synonym history = "string list list"
type_synonym rac = "history \<Rightarrow> string list \<Rightarrow> proc_result"

definition build_base_command :: "ClusterConfig \<Rightarrow> string list" where
  "build_base_command config = [rac_path config, ras_host config @ '':'' @ str_int (ras_port config)]"

definition add_cluster_auth :: "ClusterConfig \<Rightarrow> string list \<Rightarrow> string list" where
  "add_cluster_auth config cmd =
     (let cmd = (if cluster_user config \<noteq> [] then cmd @ [''--cluster-user'', cluster_user config] else cmd)
      in if cluster_pwd config \<noteq> [] then cmd @ [''--cluster-pwd'', cluster_pwd config] else cmd)"

definition add_infobase_auth :: "ClusterConfig \<Rightarrow> string list \<Rightarrow> string list" where
  "add_infobase_auth config cmd =
     (let cmd = (if infobase_user config \<noteq> [] then cmd @ [''--infobase-user'', infobase_user config] else cmd)
      in if infobase_pwd config \<noteq> [] then cmd @ [''--infobase-pwd'', infobase_pwd config] else cmd)"

text \<open>
  \<open>_execute_command\<close>: the text handed to the caller is the standard output when the exit
  status is 0 and the output is not blank, and the empty text in every other case. The
  prints and the log lines are left out.
\<close>

definition execute_command :: "rac \<Rightarrow> history \<Rightarrow> string list \<Rightarrow> string \<times> history" where
  "execute_command run h cmd =
     (case run h cmd of
        Completed rc out err \<Rightarrow>
          if rc \<noteq> 0 then []
          else if strip out = [] then []
          else out
      | TimeoutExpired \<Rightarrow> []
      | OtherException \<Rightarrow> [],
      h @ [cmd])"

text \<open>
  A Python \<open>dict\<close> with text keys and values: an association list in insertion order;
  storing under a key that is present replaces its value in place.
\<close>

type_synonym item = "(string \<times> string) list"

definition dict_get :: "item \<Rightarrow> string \<Rightarrow> string \<Rightarrow> string" where
  "dict_get d k dflt = (case map_of d k of None \<Rightarrow> dflt | Some v \<Rightarrow> v)"

text \<open>The loop of \<open>_parse_output\<close> over the lines, with \<open>current_item\<close> and \<open>items\<close>.\<close>

fun parse_loop :: "string list \<Rightarrow> item \<Rightarrow> item list \<Rightarrow> item \<times> item list" where
  "parse_loop [] current_item items = (current_item, items)"
| "parse_loop (raw # rest) current_item items =
     (let line = strip raw in
      if line = [] then
        (if current_item \<noteq> [] then parse_loop rest [] (items @ [current_item])
         else parse_loop rest current_item items)
      else if CHR '':'' \<in> set line then
        (case str_partition CHR '':'' line of
           (key, _, val) \<Rightarrow> parse_loop rest (AList.update (strip key) (strip val) current_item) items)
      else parse_loop rest current_item items)"

definition parse_output :: "string \<Rightarrow> item list" where
  "parse_output output =
     (case parse_loop (split_on CHR 0x0A (strip output)) [] [] of
        (current_item, items) \<Rightarrow> if current_item \<noteq> [] then items @ [current_item] else items)"

text \<open>The command lines of the four queries.\<close>

definition get_clusters_cmd :: "ClusterConfig \<Rightarrow> string list" where
  "get_clusters_cmd config = build_base_command config @ [''cluster'', ''list'']"

definition get_servers_cmd :: "ClusterConfig \<Rightarrow> string \<Rightarrow> string list" where
  "get_servers_cmd config cid =
     add_cluster_auth config (build_base_command config @ [''server'', ''list'', ''--cluster='' @ cid])"

definition get_infobases_cmd :: "ClusterConfig \<Rightarrow> string \<Rightarrow> string list" where
  "get_infobases_cmd config cid =
     add_cluster_auth config
       (build_base_command config @ [''infobase'', ''summary'', ''list'', ''--cluster='' @ cid])"

definition get_sessions_cmd :: "ClusterConfig \<Rightarrow> string \<Rightarrow> string option \<Rightarrow> string list" where
  "get_sessions_cmd config cid ibid =
     (let cmd = build_base_command config @ [''session'', ''list'', ''--cluster='' @ cid];
          cmd = (case ibid of None \<Rightarrow> cmd
                 | Some i \<Rightarrow> if i \<noteq> [] then cmd @ [''--infobase='' @ i] else cmd)
      in add_cluster_auth config cmd)"

definition get_clusters :: "ClusterConfig \<Rightarrow> rac \<Rightarrow> history \<Rightarrow> Cluster list \<times> history" where
  "get_clusters config run h =
     (case execute_command run h (get_clusters_cmd config) of
        (output, h') \<Rightarrow>
          (map (\<lambda>item. \<lparr>cluster_id = dict_get item ''cluster'' [],
                        Cluster.host = dict_get item ''host'' [],
                        Cluster.port = dict_get item ''port'' [],
                        Cluster.name = dict_get item ''name'' []\<rparr>) (parse_output output), h'))"

definition get_servers :: "ClusterConfig \<Rightarrow> rac \<Rightarrow> string \<Rightarrow> history \<Rightarrow> WorkingServer list \<times> history" where
  "get_servers config run cid h =
     (case execute_command run h (get_servers_cmd config cid) of
        (output, h') \<Rightarrow>
          (map (\<lambda>item. \<lparr>server_id = dict_get item ''server'' [],
                        WorkingServer.name = dict_get item ''name'' [],
                        WorkingServer.host = dict_get item ''host'' [],
                        WorkingServer.port = dict_get item ''port'' [],
                        port_range = dict_get item ''port-range'' [],
                        cluster_port = dict_get item ''cluster-port'' []\<rparr>) (parse_output output), h'))"

definition get_infobases :: "ClusterConfig \<Rightarrow> rac \<Rightarrow> string \<Rightarrow> history \<Rightarrow> InfoBase list \<times> history" where
  "get_infobases config run cid h =
     (case execute_command run h (get_infobases_cmd config cid) of
        (output, h') \<Rightarrow>
          (map (\<lambda>item. \<lparr>InfoBase.infobase_id = dict_get item ''infobase'' [],
                        InfoBase.name = dict_get item ''name'' [],
                        descr = dict_get item ''descr'' [],
                        sessions_deny = ''off'',
                        scheduled_jobs_deny = ''off'',
                        sessions_count = 0,
                        last_session_time = None,
                        is_inactive = False\<rparr>) (parse_output output), h'))"

text \<open>
  A time stamp of a session: read only when the key is present with a text that is not
  empty; \<open>T\<close> becomes a space, and a text that \<open>datetime.fromisoformat\<close> rejects (the library
  function, a parameter here, \<open>None\<close> for its \<open>ValueError\<close>) leaves the field absent.
\<close>

definition parse_time :: "(string \<Rightarrow> datetime option) \<Rightarrow> item \<Rightarrow> string \<Rightarrow> datetime option" where
  "parse_time fromisoformat item k =
     (case map_of item k of
        None \<Rightarrow> None
      | Some v \<Rightarrow> if v = [] then None
                  else fromisoformat (map (\<lambda>c. if c = CHR ''T'' then CHR '' '' else c) v))"

definition get_sessions ::
  "ClusterConfig \<Rightarrow> rac \<Rightarrow> (string \<Rightarrow> datetime option) \<Rightarrow> string \<Rightarrow> string option \<Rightarrow> history
     \<Rightarrow> Session list \<times> history" where
  "get_sessions config run fromisoformat cid ibid h =
     (case execute_command run h (get_sessions_cmd config cid ibid) of
        (output, h') \<Rightarrow>
          (map (\<lambda>item. \<lparr>session_id = dict_get item ''session'' [],
                        Session.infobase_id = dict_get item ''infobase'' [],
                        user_name = dict_get item ''user-name'' [],
                        app_id = dict_get item ''app-id'' [],
                        started_at = parse_time fromisoformat item ''started-at'',
                        last_active_at = parse_time fromisoformat item ''last-active-at''\<rparr>)
               (parse_output output), h'))"

text \<open>The command line that \<open>block_infobase\<close> builds.\<close>

definition block_infobase_cmd ::
  "ClusterConfig \<Rightarrow> string \<Rightarrow> string \<Rightarrow> bool \<Rightarrow> bool \<Rightarrow> string \<Rightarrow> string list" where
  "block_infobase_cmd config cid ibid sess_deny jobs_deny denied_message =
     add_infobase_auth config (add_cluster_auth config
       (build_base_command config @
          [''infobase'', ''update'',
           ''--cluster='' @ cid,
           ''--infobase='' @ ibid,
           ''--sessions-deny='' @ (if sess_deny then ''on'' else ''off''),
           ''--scheduled-jobs-deny='' @ (if jobs_deny then ''on'' else ''off''),
           ''--denied-message='' @ denied_message]))"

definition block_infobase ::
  "ClusterConfig \<Rightarrow> rac \<Rightarrow> string \<Rightarrow> string \<Rightarrow> bool \<Rightarrow> bool \<Rightarrow> string \<Rightarrow> history \<Rightarrow> bool \<times> history" where
  "block_infobase config run cid ibid sess_deny jobs_deny denied_message h =
     (case execute_command run h (block_infobase_cmd config cid ibid sess_deny jobs_deny denied_message) of
        (output, h') \<Rightarrow>
          (if output \<noteq> [] then \<not> str_in ''error'' (lower output) else False, h'))"

definition unblock_infobase :: "ClusterConfig \<Rightarrow> rac \<Rightarrow> string \<Rightarrow> string \<Rightarrow> history \<Rightarrow> bool \<times> history" where
  "unblock_infobase config run cid ibid h = block_infobase config run cid ibid False False [] h"

text \<open>The default of \<open>denied_message\<close>, "Baza zablokirovana dlya obsluzhivaniya" in Cyrillic.\<close>

definition default_denied_message :: string where
  "default_denied_message = [CHR 0xD0, CHR 0x91, CHR 0xD0, CHR 0xB0, CHR 0xD0, CHR 0xB7, CHR 0xD0, CHR 0xB0] @ '' '' @ [CHR 0xD0, CHR 0xB7, CHR 0xD0, CHR 0xB0, CHR 0xD0, CHR 0xB1, CHR 0xD0, CHR 0xBB, CHR 0xD0, CHR 0xBE, CHR 0xD0, CHR 0xBA, CHR 0xD0, CHR 0xB8, CHR 0xD1, CHR 0x80, CHR 0xD0, CHR 0xBE, CHR 0xD0, CHR 0xB2, CHR 0xD0, CHR 0xB0, CHR 0xD0, CHR 0xBD, CHR 0xD0, CHR 0xB0] @ '' '' @ [CHR 0xD0, CHR 0xB4, CHR 0xD0, CHR 0xBB, CHR 0xD1, CHR 0x8F] @ '' '' @ [CHR 0xD0, CHR 0xBE, CHR 0xD0, CHR 0xB1, CHR 0xD1, CHR 0x81, CHR 0xD0, CHR 0xBB, CHR 0xD1, CHR 0x83, CHR 0xD0, CHR 0xB6, CHR 0xD0, CHR 0xB8, CHR 0xD0, CHR 0xB2, CHR 0xD0, CHR 0xB0, CHR 0xD0, CHR 0xBD, CHR 0xD0, CHR 0xB8, CHR 0xD1, CHR 0x8F]"

text \<open>The command line that \<open>terminate_session\<close> builds.\<close>

definition terminate_session_cmd :: "ClusterConfig \<Rightarrow> string \<Rightarrow> string \<Rightarrow> string list" where
  "terminate_session_cmd config cid sid =
     add_cluster_auth config
       (build_base_command config @ [''session'', ''terminate'', ''--cluster='' @ cid, ''--session='' @ sid])"

definition terminate_session :: "ClusterConfig \<Rightarrow> rac \<Rightarrow> string \<Rightarrow> string \<Rightarrow> history \<Rightarrow> bool \<times> history" where
  "terminate_session config run cid sid h =
     (case execute_command run h (terminate_session_cmd config cid sid) of
        (output, h') \<Rightarrow> (if output \<noteq> [] then \<not> str_in ''error'' (lower output) else True, h'))"


section \<open>The cluster manager\<close>

subsection \<open>Comparing and subtracting \<open>datetime\<close> values\<close>

text \<open>
  \<open>a > b\<close>: two naive values compare by the wall clock, two aware values by their instants,
  and a naive value against an aware one raises \<open>TypeError\<close>.
\<close>

definition dt_gt :: "datetime \<Rightarrow> datetime \<Rightarrow> exn + bool" where
  "dt_gt a b =
     (case (utcoffset a, utcoffset b) of
        (None, None) \<Rightarrow> Inr (wall a > wall b)
      | (Some oa, Some ob) \<Rightarrow> Inr (wall a - oa > wall b - ob)
      | _ \<Rightarrow> Inl TypeError)"

text \<open>
  \<open>max(xs)\<close>: the first item is the candidate; each later item replaces the candidate when
  it is greater. An empty list raises \<open>ValueError\<close>.
\<close>

fun max_loop :: "datetime \<Rightarrow> datetime list \<Rightarrow> exn + datetime" where
  "max_loop m [] = Inr m"
| "max_loop m (x # xs) =
     (case dt_gt x m of Inl e \<Rightarrow> Inl e | Inr b \<Rightarrow> max_loop (if b then x else m) xs)"

definition py_max :: "datetime list \<Rightarrow> exn + datetime" where
  "py_max xs = (case xs of [] \<Rightarrow> Inl ValueError | x # rest \<Rightarrow> max_loop x rest)"

text \<open>The last microsecond of the year 9999, \<open>datetime.max\<close>.\<close>

definition max_wall :: int where
  "max_wall = 3652059 * 86400000000 - 1"

text \<open>
  \<open>now - timedelta(hours=h)\<close>: \<open>OverflowError\<close> when the result is not between
  \<open>datetime.min\<close> and \<open>datetime.max\<close> (a \<open>timedelta\<close> too large to build is such a case).
\<close>

definition minus_hours :: "datetime \<Rightarrow> int \<Rightarrow> exn + datetime" where
  "minus_hours now h =
     (let w = wall now - h * 3600000000
      in if 0 \<le> w \<and> w \<le> max_wall then Inr (Datetime w (utcoffset now)) else Inl OverflowError)"

subsection \<open>\<open>collect_cluster_info\<close>\<close>

text \<open>
  The statements of the loop over \<open>infobases\<close> up to the assignment of
  \<open>last_session_time\<close>.
\<close>

definition count_sessions :: "Session list \<Rightarrow> InfoBase \<Rightarrow> exn + InfoBase" where
  "count_sessions all_sessions ib =
     (let ib_sessions = filter (\<lambda>s. Session.infobase_id s = InfoBase.infobase_id ib) all_sessions;
          ib = ib\<lparr>sessions_count := int (length ib_sessions)\<rparr>
      in if ib_sessions \<noteq> [] then
           (let last_active_times = List.map_filter last_active_at ib_sessions
            in if last_active_times \<noteq> [] then
                 (case py_max last_active_times of
                    Inl e \<Rightarrow> Inl e
                  | Inr m \<Rightarrow> Inr (ib\<lparr>last_session_time := Some m\<rparr>))
               else Inr ib)
         else Inr ib)"

text \<open>
  The loop over \<open>infobases\<close>. It changes the infobases in place and appends to
  \<open>report.inactive_bases\<close>; an exception leaves the loop with the report as it is by then.
  The result is the list of the changed infobases, or the exception, and the report.
\<close>

fun correlate :: "Session list \<Rightarrow> InfoBase list \<Rightarrow> ClusterReport \<Rightarrow> (exn + InfoBase list) \<times> ClusterReport" where
  "correlate all_sessions [] report = (Inr [], report)"
| "correlate all_sessions (ib # rest) report =
     (case count_sessions all_sessions ib of
        Inl e \<Rightarrow> (Inl e, report)
      | Inr ib \<Rightarrow>
          (let (ib, report) =
                 (if sessions_count ib = 0
                  then (ib\<lparr>is_inactive := True\<rparr>,
                        report\<lparr>inactive_bases := inactive_bases report @ [ib\<lparr>is_inactive := True\<rparr>]\<rparr>)
                  else (ib, report))
           in case correlate all_sessions rest report of
                (Inl e, report) \<Rightarrow> (Inl e, report)
              | (Inr rest', report) \<Rightarrow> (Inr (ib # rest'), report)))"

text \<open>
  The body of the loop over the clusters, for one cluster. \<open>now\<close> is what \<open>datetime.now()\<close>
  returns in this round.
\<close>

definition collect_cluster ::
  "ClusterConfig \<Rightarrow> rac \<Rightarrow> (string \<Rightarrow> datetime option) \<Rightarrow> datetime \<Rightarrow> Cluster
     \<Rightarrow> ClusterReport \<times> history \<Rightarrow> exn option \<times> ClusterReport \<times> history" where
  "collect_cluster config run fromisoformat now cluster st =
     (case st of (report, h) \<Rightarrow>
      case get_servers config run (cluster_id cluster) h of (svs, h) \<Rightarrow>
      let report = report\<lparr>servers := servers report @ svs\<rparr> in
      case get_infobases config run (cluster_id cluster) h of (ibs, h) \<Rightarrow>
      case get_sessions config run fromisoformat (cluster_id cluster) None h of (all_sessions, h) \<Rightarrow>
      let report = report\<lparr>sessions := sessions report @ all_sessions\<rparr> in
      case minus_hours now (inactive_hours config) of
        Inl e \<Rightarrow> (Some e, report, h)
      | Inr inactive_threshold \<Rightarrow>
          (case correlate all_sessions ibs report of
             (Inl e, report) \<Rightarrow> (Some e, report, h)
           | (Inr ibs, report) \<Rightarrow> (None, report\<lparr>infobases := infobases report @ ibs\<rparr>, h)))"

text \<open>
  The loop over the clusters; \<open>clock k\<close> is the value of the \<open>k\<close>-th call of
  \<open>datetime.now()\<close> of the pass.
\<close>

fun collect_loop ::
  "ClusterConfig \<Rightarrow> rac \<Rightarrow> (string \<Rightarrow> datetime option) \<Rightarrow> (nat \<Rightarrow> datetime) \<Rightarrow> nat \<Rightarrow> Cluster list
     \<Rightarrow> ClusterReport \<times> history \<Rightarrow> exn option \<times> ClusterReport \<times> history" where
  "collect_loop config run fromisoformat clock k [] st = (None, st)"
| "collect_loop config run fromisoformat clock k (c # cs) st =
     (case collect_cluster config run fromisoformat (clock k) c st of
        (Some e, st') \<Rightarrow> (Some e, st')
      | (None, st') \<Rightarrow> collect_loop config run fromisoformat clock (Suc k) cs st')"

text \<open>The caption of the error entry, "Oshibka sbora informatsii: " in Cyrillic.\<close>

definition collect_error_caption :: string where
  "collect_error_caption = [CHR 0xD0, CHR 0x9E, CHR 0xD1, CHR 0x88, CHR 0xD0, CHR 0xB8, CHR 0xD0, CHR 0xB1, CHR 0xD0, CHR 0xBA, CHR 0xD0, CHR 0xB0] @ '' '' @ [CHR 0xD1, CHR 0x81, CHR 0xD0, CHR 0xB1, CHR 0xD0, CHR 0xBE, CHR 0xD1, CHR 0x80, CHR 0xD0, CHR 0xB0] @ '' '' @ [CHR 0xD0, CHR 0xB8, CHR 0xD0, CHR 0xBD, CHR 0xD1, CHR 0x84, CHR 0xD0, CHR 0xBE, CHR 0xD1, CHR 0x80, CHR 0xD0, CHR 0xBC, CHR 0xD0, CHR 0xB0, CHR 0xD1, CHR 0x86, CHR 0xD0, CHR 0xB8, CHR 0xD0, CHR 0xB8] @ '': ''"

text \<open>
  \<open>collect_cluster_info\<close>: a fresh report, the clusters, the loop, and the handler that
  turns an exception into an entry of \<open>errors\<close>. \<open>str_exn\<close> is the text of an exception.
\<close>

definition collect_cluster_info ::
  "ClusterConfig \<Rightarrow> rac \<Rightarrow> (string \<Rightarrow> datetime option) \<Rightarrow> (nat \<Rightarrow> datetime) \<Rightarrow> (exn \<Rightarrow> string)
     \<Rightarrow> history \<Rightarrow> ClusterReport \<times> history" where
  "collect_cluster_info config run fromisoformat clock str_exn h =
     (let report = \<lparr>generated_at = clock 0, clusters = [], servers = [], infobases = [],
                     sessions = [], inactive_bases = [], errors = []\<rparr>
      in case get_clusters config run h of (cs, h) \<Rightarrow>
         case collect_loop config run fromisoformat clock 1 cs (report\<lparr>clusters := cs\<rparr>, h) of
           (None, report, h) \<Rightarrow> (report, h)
         | (Some e, report, h) \<Rightarrow>
             (report\<lparr>errors := errors report @ [collect_error_caption @ str_exn e]\<rparr>, h))"

subsection \<open>\<open>block_inactive_bases\<close>\<close>

text \<open>The message of the planner, "Baza avtomaticheski zablokirovana iz-za neaktivnosti".\<close>

definition auto_denied_message :: string where
  "auto_denied_message = [CHR 0xD0, CHR 0x91, CHR 0xD0, CHR 0xB0, CHR 0xD0, CHR 0xB7, CHR 0xD0, CHR 0xB0] @ '' '' @ [CHR 0xD0, CHR 0xB0, CHR 0xD0, CHR 0xB2, CHR 0xD1, CHR 0x82, CHR 0xD0, CHR 0xBE, CHR 0xD0, CHR 0xBC, CHR 0xD0, CHR 0xB0, CHR 0xD1, CHR 0x82, CHR 0xD0, CHR 0xB8, CHR 0xD1, CHR 0x87, CHR 0xD0, CHR 0xB5, CHR 0xD1, CHR 0x81, CHR 0xD0, CHR 0xBA, CHR 0xD0, CHR 0xB8] @ '' '' @ [CHR 0xD0, CHR 0xB7, CHR 0xD0, CHR 0xB0, CHR 0xD0, CHR 0xB1, CHR 0xD0, CHR 0xBB, CHR 0xD0, CHR 0xBE, CHR 0xD0, CHR 0xBA, CHR 0xD0, CHR 0xB8, CHR 0xD1, CHR 0x80, CHR 0xD0, CHR 0xBE, CHR 0xD0, CHR 0xB2, CHR 0xD0, CHR 0xB0, CHR 0xD0, CHR 0xBD, CHR 0xD0, CHR 0xB0] @ '' '' @ [CHR 0xD0, CHR 0xB8, CHR 0xD0, CHR 0xB7] @ ''-'' @ [CHR 0xD0, CHR 0xB7, CHR 0xD0, CHR 0xB0] @ '' '' @ [CHR 0xD0, CHR 0xBD, CHR 0xD0, CHR 0xB5, CHR 0xD0, CHR 0xB0, CHR 0xD0, CHR 0xBA, CHR 0xD1, CHR 0x82, CHR 0xD0, CHR 0xB8, CHR 0xD0, CHR 0xB2, CHR 0xD0, CHR 0xBD, CHR 0xD0, CHR 0xBE, CHR 0xD1, CHR 0x81, CHR 0xD1, CHR 0x82, CHR 0xD0, CHR 0xB8]"

text \<open>The inner loop, over \<open>report.inactive_bases\<close>, for one cluster.\<close>

fun block_bases ::
  "ClusterConfig \<Rightarrow> rac \<Rightarrow> bool \<Rightarrow> Cluster \<Rightarrow> InfoBase list \<Rightarrow> string list \<times> history
     \<Rightarrow> string list \<times> history" where
  "block_bases config run dry_run cluster [] st = st"
| "block_bases config run dry_run cluster (ib # rest) st =
     (case st of (blocked, h) \<Rightarrow>
        if dry_run then block_bases config run dry_run cluster rest (blocked @ [InfoBase.name ib], h)
        else (case block_infobase config run (cluster_id cluster) (InfoBase.infobase_id ib)
                     True True auto_denied_message h of
                (ok, h) \<Rightarrow>
                  block_bases config run dry_run cluster rest
                    (if ok then blocked @ [InfoBase.name ib] else blocked, h)))"

text \<open>The outer loop, over \<open>report.clusters\<close>.\<close>

fun block_clusters ::
  "ClusterConfig \<Rightarrow> rac \<Rightarrow> bool \<Rightarrow> InfoBase list \<Rightarrow> Cluster list \<Rightarrow> string list \<times> history
     \<Rightarrow> string list \<times> history" where
  "block_clusters config run dry_run bases [] st = st"
| "block_clusters config run dry_run bases (c # cs) st =
     block_clusters config run dry_run bases cs (block_bases config run dry_run c bases st)"

definition block_inactive_bases ::
  "ClusterConfig \<Rightarrow> rac \<Rightarrow> ClusterReport \<Rightarrow> bool \<Rightarrow> history \<Rightarrow> string list \<times> history" where
  "block_inactive_bases config run report dry_run h =
     block_clusters config run dry_run (inactive_bases report) (clusters report) ([], h)"

subsection \<open>The text report\<close>

text \<open>
  The report is a list of lines that grows by \<open>lines.append\<close>; every section below takes
  the lines so far and returns them with its own lines appended. \<open>strftime\<close> formats
  \<open>generated_at\<close> and \<open>str_dt\<close> is \<open>str\<close> of a \<open>datetime\<close>, both from the library.
\<close>

definition rule70 :: string where
  "rule70 = replicate 70 CHR ''=''"

definition header_section :: "(datetime \<Rightarrow> string) \<Rightarrow> ClusterReport \<Rightarrow> string list \<Rightarrow> string list" where
  "header_section strftime report lines =
     lines @ [rule70] @ [[CHR 0xD0, CHR 0x9E, CHR 0xD0, CHR 0xA2, CHR 0xD0, CHR 0xA7, CHR 0xD0, CHR 0x81, CHR 0xD0, CHR 0xA2] @ '' '' @ [CHR 0xD0, CHR 0x9E] @ '' '' @ [CHR 0xD0, CHR 0xA1, CHR 0xD0, CHR 0x9E, CHR 0xD0, CHR 0xA1, CHR 0xD0, CHR 0xA2, CHR 0xD0, CHR 0x9E, CHR 0xD0, CHR 0xAF, CHR 0xD0, CHR 0x9D, CHR 0xD0, CHR 0x98, CHR 0xD0, CHR 0x98] @ '' '' @ [CHR 0xD0, CHR 0x9A, CHR 0xD0, CHR 0x9B, CHR 0xD0, CHR 0x90, CHR 0xD0, CHR 0xA1, CHR 0xD0, CHR 0xA2, CHR 0xD0, CHR 0x95, CHR 0xD0, CHR 0xA0, CHR 0xD0, CHR 0x90] @ '' 1'' @ [CHR 0xD0, CHR 0xA1] @ '':'' @ [CHR 0xD0, CHR 0x9F, CHR 0xD0, CHR 0xA0, CHR 0xD0, CHR 0x95, CHR 0xD0, CHR 0x94, CHR 0xD0, CHR 0x9F, CHR 0xD0, CHR 0xA0, CHR 0xD0, CHR 0x98, CHR 0xD0, CHR 0xAF, CHR 0xD0, CHR 0xA2, CHR 0xD0, CHR 0x98, CHR 0xD0, CHR 0x95]]
       @ [[CHR 0xD0, CHR 0x94, CHR 0xD0, CHR 0xB0, CHR 0xD1, CHR 0x82, CHR 0xD0, CHR 0xB0] @ '' '' @ [CHR 0xD1, CHR 0x84, CHR 0xD0, CHR 0xBE, CHR 0xD1, CHR 0x80, CHR 0xD0, CHR 0xBC, CHR 0xD0, CHR 0xB8, CHR 0xD1, CHR 0x80, CHR 0xD0, CHR 0xBE, CHR 0xD0, CHR 0xB2, CHR 0xD0, CHR 0xB0, CHR 0xD0, CHR 0xBD, CHR 0xD0, CHR 0xB8, CHR 0xD1, CHR 0x8F] @ '': '' @ strftime (generated_at report)] @ [rule70]"

definition cluster_section :: "ClusterReport \<Rightarrow> string list \<Rightarrow> string list" where
  "cluster_section report lines =
     foldl (\<lambda>lines c. lines @ [''  - '' @ Cluster.name c] @ [''    ID: '' @ cluster_id c]
                         @ [''    '' @ [CHR 0xD0, CHR 0xA5, CHR 0xD0, CHR 0xBE, CHR 0xD1, CHR 0x81, CHR 0xD1, CHR 0x82] @ '': '' @ Cluster.host c @ '':'' @ Cluster.port c])
       (lines @ [[CHR 0x0A] @ ''### '' @ [CHR 0xD0, CHR 0x9A, CHR 0xD0, CHR 0x9B, CHR 0xD0, CHR 0x90, CHR 0xD0, CHR 0xA1, CHR 0xD0, CHR 0xA2, CHR 0xD0, CHR 0x95, CHR 0xD0, CHR 0xA0, CHR 0xD0, CHR 0xAB] @ '' ###'']) (clusters report)"

definition server_section :: "ClusterReport \<Rightarrow> string list \<Rightarrow> string list" where
  "server_section report lines =
     foldl (\<lambda>lines s. lines @ [''  - '' @ WorkingServer.name s] @ [''    ID: '' @ server_id s]
                         @ [''    '' @ [CHR 0xD0, CHR 0xA5, CHR 0xD0, CHR 0xBE, CHR 0xD1, CHR 0x81, CHR 0xD1, CHR 0x82] @ '': '' @ WorkingServer.host s @ '':'' @ WorkingServer.port s])
       (lines @ [[CHR 0x0A] @ ''### '' @ [CHR 0xD0, CHR 0xA0, CHR 0xD0, CHR 0x90, CHR 0xD0, CHR 0x91, CHR 0xD0, CHR 0x9E, CHR 0xD0, CHR 0xA7, CHR 0xD0, CHR 0x98, CHR 0xD0, CHR 0x95] @ '' '' @ [CHR 0xD0, CHR 0xA1, CHR 0xD0, CHR 0x95, CHR 0xD0, CHR 0xA0, CHR 0xD0, CHR 0x92, CHR 0xD0, CHR 0x95, CHR 0xD0, CHR 0xA0, CHR 0xD0, CHR 0xAB] @ '' ###'']) (servers report)"

definition infobase_section :: "(datetime \<Rightarrow> string) \<Rightarrow> ClusterReport \<Rightarrow> string list \<Rightarrow> string list" where
  "infobase_section str_dt report lines =
     foldl (\<lambda>lines ib.
              (let status = (if is_inactive ib then ''['' @ [CHR 0xD0, CHR 0x9D, CHR 0xD0, CHR 0x95, CHR 0xD0, CHR 0x90, CHR 0xD0, CHR 0x9A, CHR 0xD0, CHR 0xA2, CHR 0xD0, CHR 0x98, CHR 0xD0, CHR 0x92, CHR 0xD0, CHR 0x9D, CHR 0xD0, CHR 0x90] @ '']'' else ''['' @ [CHR 0xD0, CHR 0x90, CHR 0xD0, CHR 0x9A, CHR 0xD0, CHR 0xA2, CHR 0xD0, CHR 0x98, CHR 0xD0, CHR 0x92, CHR 0xD0, CHR 0x9D, CHR 0xD0, CHR 0x90] @ '']'');
                   lines = lines @ [''  '' @ status @ '' '' @ InfoBase.name ib]
                             @ [''    ID: '' @ InfoBase.infobase_id ib]
                             @ [''    '' @ [CHR 0xD0, CHR 0xA1, CHR 0xD0, CHR 0xB5, CHR 0xD0, CHR 0xB0, CHR 0xD0, CHR 0xBD, CHR 0xD1, CHR 0x81, CHR 0xD0, CHR 0xBE, CHR 0xD0, CHR 0xB2] @ '': '' @ str_int (sessions_count ib)]
               in case last_session_time ib of
                    None \<Rightarrow> lines
                  | Some t \<Rightarrow> lines @ [''    '' @ [CHR 0xD0, CHR 0x9F, CHR 0xD0, CHR 0xBE, CHR 0xD1, CHR 0x81, CHR 0xD0, CHR 0xBB, CHR 0xD0, CHR 0xB5, CHR 0xD0, CHR 0xB4, CHR 0xD0, CHR 0xBD, CHR 0xD1, CHR 0x8F, CHR 0xD1, CHR 0x8F] @ '' '' @ [CHR 0xD0, CHR 0xB0, CHR 0xD0, CHR 0xBA, CHR 0xD1, CHR 0x82, CHR 0xD0, CHR 0xB8, CHR 0xD0, CHR 0xB2, CHR 0xD0, CHR 0xBD, CHR 0xD0, CHR 0xBE, CHR 0xD1, CHR 0x81, CHR 0xD1, CHR 0x82, CHR 0xD1, CHR 0x8C] @ '': '' @ str_dt t]))
       (lines @ [[CHR 0x0A] @ ''### '' @ [CHR 0xD0, CHR 0x98, CHR 0xD0, CHR 0x9D, CHR 0xD0, CHR 0xA4, CHR 0xD0, CHR 0x9E, CHR 0xD0, CHR 0xA0, CHR 0xD0, CHR 0x9C, CHR 0xD0, CHR 0x90, CHR 0xD0, CHR 0xA6, CHR 0xD0, CHR 0x98, CHR 0xD0, CHR 0x9E, CHR 0xD0, CHR 0x9D, CHR 0xD0, CHR 0x9D, CHR 0xD0, CHR 0xAB, CHR 0xD0, CHR 0x95] @ '' '' @ [CHR 0xD0, CHR 0x91, CHR 0xD0, CHR 0x90, CHR 0xD0, CHR 0x97, CHR 0xD0, CHR 0xAB] @ '' ###'']
              @ [[CHR 0xD0, CHR 0x92, CHR 0xD1, CHR 0x81, CHR 0xD0, CHR 0xB5, CHR 0xD0, CHR 0xB3, CHR 0xD0, CHR 0xBE] @ '' '' @ [CHR 0xD0, CHR 0xB1, CHR 0xD0, CHR 0xB0, CHR 0xD0, CHR 0xB7] @ '': '' @ str_int (int (length (infobases report)))]
              @ [[CHR 0xD0, CHR 0x9D, CHR 0xD0, CHR 0xB5, CHR 0xD0, CHR 0xB0, CHR 0xD0, CHR 0xBA, CHR 0xD1, CHR 0x82, CHR 0xD0, CHR 0xB8, CHR 0xD0, CHR 0xB2, CHR 0xD0, CHR 0xBD, CHR 0xD1, CHR 0x8B, CHR 0xD1, CHR 0x85] @ '' '' @ [CHR 0xD0, CHR 0xB1, CHR 0xD0, CHR 0xB0, CHR 0xD0, CHR 0xB7] @ '' ('' @ [CHR 0xD0, CHR 0xB1, CHR 0xD0, CHR 0xB5, CHR 0xD0, CHR 0xB7] @ '' '' @ [CHR 0xD1, CHR 0x81, CHR 0xD0, CHR 0xB5, CHR 0xD0, CHR 0xB0, CHR 0xD0, CHR 0xBD, CHR 0xD1, CHR 0x81, CHR 0xD0, CHR 0xBE, CHR 0xD0, CHR 0xB2] @ ''): '' @ str_int (int (length (inactive_bases report)))]
              @ [[]])
       (infobases report)"

text \<open>
  The session section: the heading and the total, the loop over
  \<open>self.report.sessions[:20]\<close>, and the line for the sessions that are not listed.
\<close>

definition session_section :: "(datetime \<Rightarrow> string) \<Rightarrow> ClusterReport \<Rightarrow> string list \<Rightarrow> string list" where
  "session_section str_dt report lines =
     (let lines = lines @ [[CHR 0x0A] @ ''### '' @ [CHR 0xD0, CHR 0x90, CHR 0xD0, CHR 0x9A, CHR 0xD0, CHR 0xA2, CHR 0xD0, CHR 0x98, CHR 0xD0, CHR 0x92, CHR 0xD0, CHR 0x9D, CHR 0xD0, CHR 0xAB, CHR 0xD0, CHR 0x95] @ '' '' @ [CHR 0xD0, CHR 0xA1, CHR 0xD0, CHR 0x95, CHR 0xD0, CHR 0x90, CHR 0xD0, CHR 0x9D, CHR 0xD0, CHR 0xA1, CHR 0xD0, CHR 0xAB] @ '' ###'']
                    @ [[CHR 0xD0, CHR 0x92, CHR 0xD1, CHR 0x81, CHR 0xD0, CHR 0xB5, CHR 0xD0, CHR 0xB3, CHR 0xD0, CHR 0xBE] @ '' '' @ [CHR 0xD1, CHR 0x81, CHR 0xD0, CHR 0xB5, CHR 0xD0, CHR 0xB0, CHR 0xD0, CHR 0xBD, CHR 0xD1, CHR 0x81, CHR 0xD0, CHR 0xBE, CHR 0xD0, CHR 0xB2] @ '': '' @ str_int (int (length (sessions report)))];
          lines = foldl (\<lambda>lines s.
                    (let lines = lines @ [''  - '' @ [CHR 0xD0, CHR 0x9F, CHR 0xD0, CHR 0xBE, CHR 0xD0, CHR 0xBB, CHR 0xD1, CHR 0x8C, CHR 0xD0, CHR 0xB7, CHR 0xD0, CHR 0xBE, CHR 0xD0, CHR 0xB2, CHR 0xD0, CHR 0xB0, CHR 0xD1, CHR 0x82, CHR 0xD0, CHR 0xB5, CHR 0xD0, CHR 0xBB, CHR 0xD1, CHR 0x8C] @ '': '' @ user_name s]
                                   @ [''    '' @ [CHR 0xD0, CHR 0x9F, CHR 0xD1, CHR 0x80, CHR 0xD0, CHR 0xB8, CHR 0xD0, CHR 0xBB, CHR 0xD0, CHR 0xBE, CHR 0xD0, CHR 0xB6, CHR 0xD0, CHR 0xB5, CHR 0xD0, CHR 0xBD, CHR 0xD0, CHR 0xB8, CHR 0xD0, CHR 0xB5] @ '': '' @ app_id s]
                     in case started_at s of
                          None \<Rightarrow> lines
                        | Some t \<Rightarrow> lines @ [''    '' @ [CHR 0xD0, CHR 0x9D, CHR 0xD0, CHR 0xB0, CHR 0xD1, CHR 0x87, CHR 0xD0, CHR 0xB0, CHR 0xD0, CHR 0xBB, CHR 0xD0, CHR 0xBE] @ '': '' @ str_dt t]))
                    lines (take 20 (sessions report))
      in if int (length (sessions report)) > 20
         then lines @ [''  ... '' @ [CHR 0xD0, CHR 0xB8] @ '' '' @ [CHR 0xD0, CHR 0xB5, CHR 0xD1, CHR 0x89, CHR 0xD1, CHR 0x91] @ '' '' @ str_int (int (length (sessions report)) - 20) @ '' '' @ [CHR 0xD1, CHR 0x81, CHR 0xD0, CHR 0xB5, CHR 0xD0, CHR 0xB0, CHR 0xD0, CHR 0xBD, CHR 0xD1, CHR 0x81, CHR 0xD0, CHR 0xBE, CHR 0xD0, CHR 0xB2]]
         else lines)"

definition error_section :: "ClusterReport \<Rightarrow> string list \<Rightarrow> string list" where
  "error_section report lines =
     (if errors report \<noteq> []
      then foldl (\<lambda>lines e. lines @ [''  ! '' @ e]) (lines @ [[CHR 0x0A] @ ''### ERRORS ###'']) (errors report)
      else lines)"

definition recommendation_section :: "ClusterReport \<Rightarrow> string list \<Rightarrow> string list" where
  "recommendation_section report lines =
     (let lines = lines @ [[CHR 0x0A] @ ''### RECOMMENDATIONS ###'']
      in if inactive_bases report \<noteq> []
         then foldl (\<lambda>lines ib. lines @ [''    * '' @ InfoBase.name ib])
                (lines @ [''  - '' @ [CHR 0xD0, CHR 0xA0, CHR 0xD0, CHR 0xB0, CHR 0xD1, CHR 0x81, CHR 0xD1, CHR 0x81, CHR 0xD0, CHR 0xBC, CHR 0xD0, CHR 0xBE, CHR 0xD1, CHR 0x82, CHR 0xD1, CHR 0x80, CHR 0xD0, CHR 0xB8, CHR 0xD1, CHR 0x82, CHR 0xD0, CHR 0xB5] @ '' '' @ [CHR 0xD0, CHR 0xB2, CHR 0xD0, CHR 0xBE, CHR 0xD0, CHR 0xB7, CHR 0xD0, CHR 0xBC, CHR 0xD0, CHR 0xBE, CHR 0xD0, CHR 0xB6, CHR 0xD0, CHR 0xBD, CHR 0xD0, CHR 0xBE, CHR 0xD1, CHR 0x81, CHR 0xD1, CHR 0x82, CHR 0xD1, CHR 0x8C] @ '' '' @ [CHR 0xD0, CHR 0xB1, CHR 0xD0, CHR 0xBB, CHR 0xD0, CHR 0xBE, CHR 0xD0, CHR 0xBA, CHR 0xD0, CHR 0xB8, CHR 0xD1, CHR 0x80, CHR 0xD0, CHR 0xBE, CHR 0xD0, CHR 0xB2, CHR 0xD0, CHR 0xBA, CHR 0xD0, CHR 0xB8] @ '' '' @ [CHR 0xD1, CHR 0x81, CHR 0xD0, CHR 0xBB, CHR 0xD0, CHR 0xB5, CHR 0xD0, CHR 0xB4, CHR 0xD1, CHR 0x83, CHR 0xD1, CHR 0x8E, CHR 0xD1, CHR 0x89, CHR 0xD0, CHR 0xB8, CHR 0xD1, CHR 0x85] @ '' '' @ [CHR 0xD0, CHR 0xBD, CHR 0xD0, CHR 0xB5, CHR 0xD0, CHR 0xB0, CHR 0xD0, CHR 0xBA, CHR 0xD1, CHR 0x82, CHR 0xD0, CHR 0xB8, CHR 0xD0, CHR 0xB2, CHR 0xD0, CHR 0xBD, CHR 0xD1, CHR 0x8B, CHR 0xD1, CHR 0x85] @ '' '' @ [CHR 0xD0, CHR 0xB1, CHR 0xD0, CHR 0xB0, CHR 0xD0, CHR 0xB7] @ '':''])
                (inactive_bases report)
         else lines @ [''  - '' @ [CHR 0xD0, CHR 0x92, CHR 0xD1, CHR 0x81, CHR 0xD0, CHR 0xB5] @ '' '' @ [CHR 0xD0, CHR 0xB1, CHR 0xD0, CHR 0xB0, CHR 0xD0, CHR 0xB7, CHR 0xD1, CHR 0x8B] @ '' '' @ [CHR 0xD0, CHR 0xB0, CHR 0xD0, CHR 0xBA, CHR 0xD1, CHR 0x82, CHR 0xD0, CHR 0xB8, CHR 0xD0, CHR 0xB2, CHR 0xD0, CHR 0xBD, CHR 0xD1, CHR 0x8B] @ '', '' @ [CHR 0xD0, CHR 0xB4, CHR 0xD0, CHR 0xB5, CHR 0xD0, CHR 0xB9, CHR 0xD1, CHR 0x81, CHR 0xD1, CHR 0x82, CHR 0xD0, CHR 0xB2, CHR 0xD0, CHR 0xB8, CHR 0xD0, CHR 0xB9] @ '' '' @ [CHR 0xD0, CHR 0xBD, CHR 0xD0, CHR 0xB5] @ '' '' @ [CHR 0xD1, CHR 0x82, CHR 0xD1, CHR 0x80, CHR 0xD0, CHR 0xB5, CHR 0xD0, CHR 0xB1, CHR 0xD1, CHR 0x83, CHR 0xD0, CHR 0xB5, CHR 0xD1, CHR 0x82, CHR 0xD1, CHR 0x81, CHR 0xD1, CHR 0x8F]])"

definition footer_section :: "string list \<Rightarrow> string list" where
  "footer_section lines = lines @ [[CHR 0x0A] @ rule70] @ [[CHR 0xD0, CHR 0x9A, CHR 0xD0, CHR 0x9E, CHR 0xD0, CHR 0x9D, CHR 0xD0, CHR 0x95, CHR 0xD0, CHR 0xA6] @ '' '' @ [CHR 0xD0, CHR 0x9E, CHR 0xD0, CHR 0xA2, CHR 0xD0, CHR 0xA7, CHR 0xD0, CHR 0x81, CHR 0xD0, CHR 0xA2, CHR 0xD0, CHR 0x90]] @ [rule70]"

definition text_report_lines ::
  "(datetime \<Rightarrow> string) \<Rightarrow> (datetime \<Rightarrow> string) \<Rightarrow> ClusterReport \<Rightarrow> string list" where
  "text_report_lines strftime str_dt report =
     footer_section
       (recommendation_section report
         (error_section report
           (session_section str_dt report
             (infobase_section str_dt report
               (server_section report
                 (cluster_section report
                   (header_section strftime report [])))))))"

definition generate_text_report ::
  "(datetime \<Rightarrow> string) \<Rightarrow> (datetime \<Rightarrow> string) \<Rightarrow> ClusterReport \<Rightarrow> string" where
  "generate_text_report strftime str_dt report = join ([CHR 0x0A]) (text_report_lines strftime str_dt report)"

subsection \<open>The JSON report\<close>

text \<open>
  The value that \<open>_generate_json_report\<close> hands to \<open>json.dumps\<close>: dictionaries with text
  keys in insertion order, lists, texts, integers, booleans and \<open>None\<close>.
\<close>

datatype json =
    JNull
  | JBool bool
  | JInt int
  | JStr string
  | JList "json list"
  | JDict "(string \<times> json) list"

definition json_data :: "(datetime \<Rightarrow> string) \<Rightarrow> ClusterReport \<Rightarrow> json" where
  "json_data isoformat report =
     JDict
       [(''generated_at'', JStr (isoformat (generated_at report))),
        (''clusters'',
           JList (map (\<lambda>c. JDict [(''id'', JStr (cluster_id c)),
                                   (''name'', JStr (Cluster.name c)),
                                   (''host'', JStr (Cluster.host c)),
                                   (''port'', JStr (Cluster.port c))]) (clusters report))),
        (''servers'',
           JList (map (\<lambda>s. JDict [(''id'', JStr (server_id s)),
                                   (''name'', JStr (WorkingServer.name s)),
                                   (''host'', JStr (WorkingServer.host s)),
                                   (''port'', JStr (WorkingServer.port s))]) (servers report))),
        (''infobases'',
           JList (map (\<lambda>ib. JDict [(''id'', JStr (InfoBase.infobase_id ib)),
                                    (''name'', JStr (InfoBase.name ib)),
                                    (''sessions_count'', JInt (sessions_count ib)),
                                    (''is_inactive'', JBool (is_inactive ib)),
                                    (''last_session_time'',
                                       (case last_session_time ib of
                                          None \<Rightarrow> JNull
                                        | Some t \<Rightarrow> JStr (isoformat t)))]) (infobases report))),
        (''sessions_count'', JInt (int (length (sessions report)))),
        (''inactive_bases_count'', JInt (int (length (inactive_bases report)))),
        (''errors'', JList (map JStr (errors report)))]"

text \<open>
  \<open>_generate_json_report\<close>; \<open>dumps\<close> stands for
  \<open>json.dumps(data, indent=2, ensure_ascii=False)\<close> of the library.
\<close>

definition generate_json_report ::
  "(json \<Rightarrow> 'text) \<Rightarrow> (datetime \<Rightarrow> string) \<Rightarrow> ClusterReport \<Rightarrow> 'text" where
  "generate_json_report dumps isoformat report = dumps (json_data isoformat report)"


section \<open>Notions of the specification and example inputs\<close>

text \<open>
  The external call "produces empty output": a nonzero exit status, the timeout, another
  exception, or a standard output that is blank.
\<close>

definition empty_output :: "proc_result \<Rightarrow> bool" where
  "empty_output r =
     (case r of
        Completed rc out err \<Rightarrow> rc \<noteq> 0 \<or> strip out = []
      | TimeoutExpired \<Rightarrow> True
      | OtherException \<Rightarrow> True)"

text \<open>A configuration without credentials, and two behaviours of the external utility.\<close>

definition example_config :: ClusterConfig where
  "example_config =
     \<lparr>rac_path = ''rac'', ras_host = ''localhost'', ras_port = 1545,
      cluster_user = [], cluster_pwd = [], infobase_user = [], infobase_pwd = [],
      inactive_hours = 24\<rparr>"

definition rac_exit1 :: rac where
  "rac_exit1 h cmd = Completed 1 [] ''connection refused''"

definition rac_error_text :: rac where
  "rac_error_text h cmd = Completed 0 ''Internal ERROR'' []"

text \<open>
  Library functions for the examples: \<open>fromisoformat\<close> on one text, a clock, and the
  texts of the exceptions.
\<close>

definition example_fromisoformat :: "string \<Rightarrow> datetime option" where
  "example_fromisoformat s =
     (if s = ''2024-01-01 10:00:00'' then Some (Datetime 63839700000000000 None) else None)"

definition example_clock :: "nat \<Rightarrow> datetime" where
  "example_clock k = Datetime (63839750400000000 + int k) None"

definition example_str_exn :: "exn \<Rightarrow> string" where
  "example_str_exn e =
     (case e of
        TypeError \<Rightarrow> ''can't compare offset-naive and offset-aware datetimes''
      | OverflowError \<Rightarrow> ''date value out of range''
      | ValueError \<Rightarrow> ''max() arg is an empty sequence'')"

text \<open>
  An external utility with two clusters, \<open>c1\<close> and \<open>c2\<close>; \<open>c1\<close> has one infobase,
  \<open>Archive\<close>, and there are no servers and no sessions.
\<close>

definition rac_two_clusters :: rac where
  "rac_two_clusters h cmd =
     (if cmd = get_clusters_cmd example_config
      then Completed 0 (''cluster: c1'' @ [CHR 0x0A] @ ''name: Main'' @ [CHR 0x0A, CHR 0x0A]
                        @ ''cluster: c2'' @ [CHR 0x0A] @ ''name: Spare'' @ [CHR 0x0A]) []
      else if cmd = get_infobases_cmd example_config ''c1''
      then Completed 0 (''infobase: ib3'' @ [CHR 0x0A] @ ''name: Archive'' @ [CHR 0x0A]) []
      else Completed 0 [] [])"

text \<open>
  The sessions of an infobase, and the sessions that match some infobase of a list.
\<close>

definition sessions_of :: "Session list \<Rightarrow> InfoBase \<Rightarrow> Session list" where
  "sessions_of all_sessions ib =
     filter (\<lambda>s. Session.infobase_id s = InfoBase.infobase_id ib) all_sessions"

definition matched_sessions :: "Session list \<Rightarrow> InfoBase list \<Rightarrow> Session list" where
  "matched_sessions all_sessions ibs =
     filter (\<lambda>s. Session.infobase_id s \<in> set (map InfoBase.infobase_id ibs)) all_sessions"

text \<open>
  The point of time that a \<open>datetime\<close> denotes: its wall clock, moved by the offset
  when it has one. Values of one kind compare by it.
\<close>

definition instant :: "datetime \<Rightarrow> int" where
  "instant d = (case utcoffset d of None \<Rightarrow> wall d | Some off \<Rightarrow> wall d - off)"

text \<open>The end of a round of the loop over \<open>infobases\<close>: the flag of an infobase without sessions.\<close>

definition mark :: "InfoBase \<Rightarrow> InfoBase" where
  "mark ib = (if sessions_count ib = 0 then ib\<lparr>is_inactive := True\<rparr> else ib)"

text \<open>
  An infobase as \<open>get_infobases\<close> builds it, a session, and an empty report; the example
  of the specification with two sessions of \<open>ib1\<close>, one of \<open>ib2\<close> and none of \<open>ib3\<close>;
  and two infobases with one identifier.
\<close>

definition fresh_base :: "string \<Rightarrow> string \<Rightarrow> InfoBase" where
  "fresh_base i n =
     \<lparr>InfoBase.infobase_id = i, InfoBase.name = n, descr = [], sessions_deny = ''off'',
      scheduled_jobs_deny = ''off'', sessions_count = 0, last_session_time = None,
      is_inactive = False\<rparr>"

definition example_session :: "string \<Rightarrow> string \<Rightarrow> datetime option \<Rightarrow> Session" where
  "example_session i b t =
     \<lparr>session_id = i, Session.infobase_id = b, user_name = ''admin'', app_id = ''1CV8C'',
      started_at = None, last_active_at = t\<rparr>"

definition empty_report :: ClusterReport where
  "empty_report = \<lparr>generated_at = Datetime 63839750400000000 None, clusters = [], servers = [],
     infobases = [], sessions = [], inactive_bases = [], errors = []\<rparr>"

definition example_sessions :: "Session list" where
  "example_sessions =
     [example_session ''s1'' ''ib1'' (Some (Datetime 63839700000000000 None)),
      example_session ''s2'' ''ib1'' (Some (Datetime 63839703600000000 None)),
      example_session ''s3'' ''ib2'' None]"

definition example_bases :: "InfoBase list" where
  "example_bases = [fresh_base ''ib1'' ''Sales'', fresh_base ''ib2'' ''Stock'', fresh_base ''ib3'' ''Archive'']"

definition example_bases_done :: "InfoBase list" where
  "example_bases_done =
     [(fresh_base ''ib1'' ''Sales'')\<lparr>sessions_count := 2,
         last_session_time := Some (Datetime 63839703600000000 None)\<rparr>,
      (fresh_base ''ib2'' ''Stock'')\<lparr>sessions_count := 1\<rparr>,
      (fresh_base ''ib3'' ''Archive'')\<lparr>is_inactive := True\<rparr>]"

definition twin_bases :: "InfoBase list" where
  "twin_bases = [fresh_base ''ib1'' ''Sales'', fresh_base ''ib1'' ''Sales copy'']"

definition twin_bases_done :: "InfoBase list" where
  "twin_bases_done =
     [(fresh_base ''ib1'' ''Sales'')\<lparr>sessions_count := 1\<rparr>,
      (fresh_base ''ib1'' ''Sales copy'')\<lparr>sessions_count := 1\<rparr>]"

text \<open>
  The lines of the text report for one session, and the line for \<open>n\<close> sessions that are
  not listed ("... i eshchyo n seansov").
\<close>

definition session_lines :: "(datetime \<Rightarrow> string) \<Rightarrow> Session \<Rightarrow> string list" where
  "session_lines str_dt s =
     [''  - '' @ [CHR 0xD0, CHR 0x9F, CHR 0xD0, CHR 0xBE, CHR 0xD0, CHR 0xBB, CHR 0xD1, CHR 0x8C, CHR 0xD0, CHR 0xB7, CHR 0xD0, CHR 0xBE, CHR 0xD0, CHR 0xB2, CHR 0xD0, CHR 0xB0, CHR 0xD1, CHR 0x82, CHR 0xD0, CHR 0xB5, CHR 0xD0, CHR 0xBB, CHR 0xD1, CHR 0x8C] @ '': '' @ user_name s, ''    '' @ [CHR 0xD0, CHR 0x9F, CHR 0xD1, CHR 0x80, CHR 0xD0, CHR 0xB8, CHR 0xD0, CHR 0xBB, CHR 0xD0, CHR 0xBE, CHR 0xD0, CHR 0xB6, CHR 0xD0, CHR 0xB5, CHR 0xD0, CHR 0xBD, CHR 0xD0, CHR 0xB8, CHR 0xD0, CHR 0xB5] @ '': '' @ app_id s]
       @ (case started_at s of None \<Rightarrow> [] | Some t \<Rightarrow> [''    '' @ [CHR 0xD0, CHR 0x9D, CHR 0xD0, CHR 0xB0, CHR 0xD1, CHR 0x87, CHR 0xD0, CHR 0xB0, CHR 0xD0, CHR 0xBB, CHR 0xD0, CHR 0xBE] @ '': '' @ str_dt t])"

definition more_sessions_line :: "int \<Rightarrow> string" where
  "more_sessions_line n = ''  ... '' @ [CHR 0xD0, CHR 0xB8] @ '' '' @ [CHR 0xD0, CHR 0xB5, CHR 0xD1, CHR 0x89, CHR 0xD1, CHR 0x91] @ '' '' @ str_int n @ '' '' @ [CHR 0xD1, CHR 0x81, CHR 0xD0, CHR 0xB5, CHR 0xD0, CHR 0xB0, CHR 0xD0, CHR 0xBD, CHR 0xD1, CHR 0x81, CHR 0xD0, CHR 0xBE, CHR 0xD0, CHR 0xB2]"

definition session_heading :: "ClusterReport \<Rightarrow> string list" where
  "session_heading report =
     [[CHR 0x0A] @ ''### '' @ [CHR 0xD0, CHR 0x90, CHR 0xD0, CHR 0x9A, CHR 0xD0, CHR 0xA2, CHR 0xD0, CHR 0x98, CHR 0xD0, CHR 0x92, CHR 0xD0, CHR 0x9D, CHR 0xD0, CHR 0xAB, CHR 0xD0, CHR 0x95] @ '' '' @ [CHR 0xD0, CHR 0xA1, CHR 0xD0, CHR 0x95, CHR 0xD0, CHR 0x90, CHR 0xD0, CHR 0x9D, CHR 0xD0, CHR 0xA1, CHR 0xD0, CHR 0xAB] @ '' ###'', [CHR 0xD0, CHR 0x92, CHR 0xD1, CHR 0x81, CHR 0xD0, CHR 0xB5, CHR 0xD0, CHR 0xB3, CHR 0xD0, CHR 0xBE] @ '' '' @ [CHR 0xD1, CHR 0x81, CHR 0xD0, CHR 0xB5, CHR 0xD0, CHR 0xB0, CHR 0xD0, CHR 0xBD, CHR 0xD1, CHR 0x81, CHR 0xD0, CHR 0xBE, CHR 0xD0, CHR 0xB2] @ '': '' @ str_int (int (length (sessions report)))]"

text \<open>A report with 25 sessions, and \<open>str\<close> of a \<open>datetime\<close> for the examples.\<close>

definition example_str_dt :: "datetime \<Rightarrow> string" where
  "example_str_dt d = (if d = Datetime 63839700000000000 None then ''2024-01-01 10:00:00'' else ''0001-01-01 00:00:00'')"

definition report_25_sessions :: ClusterReport where
  "report_25_sessions =
     empty_report\<lparr>sessions := replicate 25 (example_session ''s1'' ''ib1'' None)\<rparr>"

text \<open>
  Reading the infobases back from the decoded JSON document: the identifier, the name, the
  count, the flag and the time text of every entry of \<open>infobases\<close>.
\<close>

definition decode_infobase :: "json \<Rightarrow> (string \<times> string \<times> int \<times> bool \<times> string option) option" where
  "decode_infobase j =
     (case j of
        JDict kv \<Rightarrow>
          (case (map_of kv ''id'', map_of kv ''name'', map_of kv ''sessions_count'',
                 map_of kv ''is_inactive'', map_of kv ''last_session_time'') of
             (Some (JStr i), Some (JStr n), Some (JInt c), Some (JBool b), Some JNull) \<Rightarrow>
               Some (i, n, c, b, None)
           | (Some (JStr i), Some (JStr n), Some (JInt c), Some (JBool b), Some (JStr t)) \<Rightarrow>
               Some (i, n, c, b, Some t)
           | _ \<Rightarrow> None)
      | _ \<Rightarrow> None)"

definition decoded_infobases :: "json \<Rightarrow> (string \<times> string \<times> int \<times> bool \<times> string option) list option" where
  "decoded_infobases j =
     (case j of
        JDict kv \<Rightarrow>
          (case map_of kv ''infobases'' of
             Some (JList xs) \<Rightarrow> those (map decode_infobase xs)
           | _ \<Rightarrow> None)
      | _ \<Rightarrow> None)"

definition example_isoformat :: "datetime \<Rightarrow> string" where
  "example_isoformat d = (if d = Datetime 63839703600000000 None then ''2024-01-01T11:00:00'' else ''0001-01-01T00:00:00'')"

definition example_report :: ClusterReport where
  "example_report =
     empty_report\<lparr>infobases := example_bases_done, sessions := example_sessions,
       inactive_bases := [(fresh_base ''ib3'' ''Archive'')\<lparr>is_inactive := True\<rparr>]\<rparr>"

text \<open>
  The parser as the specification words it. The text is cut into lines and every line is
  trimmed; a line is blank when nothing is left of it. Lines that are not blank and have no
  colon are ignored. The remaining lines are cut into records at the blank lines: a record
  is a maximal run of lines that are not blank. A line of a record is split at its first
  colon into a key and a value, both trimmed, and a later line overwrites the value that an
  earlier line gave to its key.
\<close>

definition trimmed_lines :: "string \<Rightarrow> string list" where
  "trimmed_lines text = map strip (split_on CHR 0x0A text)"

definition field_of_line :: "string \<Rightarrow> string \<times> string" where
  "field_of_line l =
     (strip (takeWhile (\<lambda>c. c \<noteq> CHR '':'') l), strip (tl (dropWhile (\<lambda>c. c \<noteq> CHR '':'') l)))"

definition record_of :: "string list \<Rightarrow> (string \<rightharpoonup> string)" where
  "record_of ls = map_of (rev (map field_of_line ls))"

fun split_blank :: "string list \<Rightarrow> string list list" where
  "split_blank [] = [[]]"
| "split_blank (l # ls) =
     (if l = [] then [] # split_blank ls
      else (case split_blank ls of [] \<Rightarrow> [[l]] | b # bs \<Rightarrow> (l # b) # bs))"

definition parse_spec :: "string \<Rightarrow> (string \<rightharpoonup> string) list" where
  "parse_spec text =
     map record_of
       (filter (\<lambda>b. b \<noteq> [])
          (split_blank (filter (\<lambda>l. l = [] \<or> CHR '':'' \<in> set l) (trimmed_lines text))))"

text \<open>
  For the proof about the parser: the trimmed lines that are not ignored, the dictionary
  that the loop has built from the lines of the record it is in, and the end of
  \<open>_parse_output\<close> after the loop.
\<close>

definition keep :: "string list \<Rightarrow> string list" where
  "keep ls = filter (\<lambda>l. l = [] \<or> CHR '':'' \<in> set l) ls"

definition build :: "string list \<Rightarrow> item" where
  "build pre = foldl (\<lambda>d l. AList.update (fst (field_of_line l)) (snd (field_of_line l)) d) [] pre"

definition finish :: "item \<times> item list \<Rightarrow> item list" where
  "finish st = (case st of (cur, items) \<Rightarrow> if cur \<noteq> [] then items @ [cur] else items)"

text \<open>
  An output with two records: a key written twice, lines without a colon, a run of blank
  lines, and no blank line at the end.
\<close>

definition example_output :: string where
  "example_output =
     ''a: 1'' @ [CHR 0x0A] @ ''junk'' @ [CHR 0x0A] @ '' a : 2:3 '' @ [CHR 0x0A, CHR 0x0A, CHR 0x0A]
       @ ''junk'' @ [CHR 0x0A, CHR 0x0A] @ ''b:''"

text \<open>Two sessions of \<open>ib1\<close>, one with a naive and one with an aware \<open>last_active_at\<close>.\<close>

definition mixed_sessions :: "Session list" where
  "mixed_sessions =
     [example_session ''s1'' ''ib1'' (Some (Datetime 63839700000000000 None)),
      example_session ''s2'' ''ib1'' (Some (Datetime 63839700000000000 (Some 10800000000)))]"

text \<open>
  An external utility that exits with status 1 and an error text on its standard output,
  and one that exits with status 1 and the text \<open>ok\<close>.
\<close>

definition rac_exit1_error_text :: rac where
  "rac_exit1_error_text h cmd = Completed 1 ''Error: session not found'' []"

definition rac_exit1_ok :: rac where
  "rac_exit1_ok h cmd = Completed 1 ''ok'' []"


section \<open>Properties\<close>

subsection \<open>The texts and the external call\<close>

lemma str_in_sublist: "str_in sub s \<longleftrightarrow> sublist sub s"
  by (induction s) (simp_all add: sublist_Cons_right)

lemma execute_command_empty:
  "empty_output (run h cmd) \<Longrightarrow> execute_command run h cmd = ([], h @ [cmd])"
  by (auto simp: empty_output_def execute_command_def split: proc_result.splits)

lemma execute_command_error_text:
  "fst (execute_command rac_error_text h cmd) = ''Internal ERROR''"
  unfolding execute_command_def rac_error_text_def by code_simp

subsection \<open>The mutation primitives\<close>

text \<open>
  Claim C10. When the external call produces empty output (a nonzero exit status, the
  timeout or a blank standard output), \<open>terminate_session\<close> returns true and
  \<open>block_infobase\<close> returns false.
\<close>

theorem empty_output_asymmetry:
  "(empty_output (run h (terminate_session_cmd config cid sid)) \<longrightarrow>
      fst (terminate_session config run cid sid h))
   \<and> (empty_output (run h (block_infobase_cmd config cid ibid sd jd msg)) \<longrightarrow>
      \<not> fst (block_infobase config run cid ibid sd jd msg h))"
  by (simp add: terminate_session_def block_infobase_def execute_command_empty)

theorem empty_output_asymmetry_witness:
  "empty_output (rac_exit1 [] (terminate_session_cmd example_config ''c1'' ''s1''))
   \<and> fst (terminate_session example_config rac_exit1 ''c1'' ''s1'' [])
   \<and> empty_output (rac_exit1 [] (block_infobase_cmd example_config ''c1'' ''b1'' True True ''m''))
   \<and> \<not> fst (block_infobase example_config rac_exit1 ''c1'' ''b1'' True True ''m'' [])"
  using empty_output_asymmetry
          [of rac_exit1 "[]" example_config "''c1''" "''s1''" "''b1''" True True "''m''"]
  by (simp add: empty_output_def rac_exit1_def)

subsection \<open>The queries and a failing external call\<close>

lemma parse_output_empty: "parse_output [] = []"
  by code_simp

lemma execute_command_nonzero:
  "run h cmd = Completed rc out err \<Longrightarrow> rc \<noteq> 0 \<Longrightarrow> execute_command run h cmd = ([], h @ [cmd])"
  by (simp add: execute_command_def)

text \<open>
  Claim C6, as the specification states it, has the failure of the external call recorded
  as an error by the collection pass. With an external utility that exits with status 1,
  \<open>get_clusters\<close> returns the empty list and the pass returns a report whose \<open>errors\<close> is
  empty.
\<close>

theorem nonzero_exit_recorded_counterexample:
  "fst (get_clusters example_config rac_exit1 []) = []
   \<and> errors (fst (collect_cluster_info example_config rac_exit1 example_fromisoformat
                       example_clock example_str_exn [])) = []"
  by code_simp

text \<open>
  Claim C6, amended. When the external call of a query returns a nonzero exit status, the
  query returns the empty list (the model has no exception for it to raise); and the
  collection pass whose cluster query fails so returns a report without clusters and
  without a recorded error.
\<close>

theorem nonzero_exit_not_recorded:
  "(run h (get_clusters_cmd config) = Completed rc out err \<and> rc \<noteq> 0 \<longrightarrow>
      fst (get_clusters config run h) = []
      \<and> clusters (fst (collect_cluster_info config run fromisoformat clock str_exn h)) = []
      \<and> errors (fst (collect_cluster_info config run fromisoformat clock str_exn h)) = [])
   \<and> (run h (get_servers_cmd config cid) = Completed rc out err \<and> rc \<noteq> 0 \<longrightarrow>
      fst (get_servers config run cid h) = [])
   \<and> (run h (get_infobases_cmd config cid) = Completed rc out err \<and> rc \<noteq> 0 \<longrightarrow>
      fst (get_infobases config run cid h) = [])
   \<and> (run h (get_sessions_cmd config cid ibid) = Completed rc out err \<and> rc \<noteq> 0 \<longrightarrow>
      fst (get_sessions config run fromisoformat cid ibid h) = [])"
  by (simp add: get_clusters_def get_servers_def get_infobases_def get_sessions_def
        collect_cluster_info_def execute_command_nonzero parse_output_empty)

theorem nonzero_exit_not_recorded_witness:
  "rac_exit1 [] (get_clusters_cmd example_config) = Completed 1 [] ''connection refused''
   \<and> (1 :: int) \<noteq> 0
   \<and> fst (get_clusters example_config rac_exit1 []) = []
   \<and> clusters (fst (collect_cluster_info example_config rac_exit1 example_fromisoformat
                        example_clock example_str_exn [])) = []
   \<and> errors (fst (collect_cluster_info example_config rac_exit1 example_fromisoformat
                      example_clock example_str_exn [])) = []
   \<and> fst (get_servers example_config rac_exit1 ''c1'' []) = []
   \<and> fst (get_infobases example_config rac_exit1 ''c1'' []) = []
   \<and> fst (get_sessions example_config rac_exit1 example_fromisoformat ''c1'' None []) = []"
  using nonzero_exit_not_recorded
          [of rac_exit1 "[]" example_config 1 "[]" "''connection refused''"
              example_fromisoformat example_clock example_str_exn "''c1''" None]
  by (simp add: rac_exit1_def)

subsection \<open>The planner\<close>

lemma block_bases_dry:
  "block_bases config run True c bases (blocked, h) = (blocked @ map InfoBase.name bases, h)"
  by (induction bases arbitrary: blocked) simp_all

lemma block_clusters_dry:
  "block_clusters config run True bases cs (blocked, h)
     = (blocked @ concat (map (\<lambda>c. map InfoBase.name bases) cs), h)"
  by (induction cs arbitrary: blocked) (simp_all add: block_bases_dry)

text \<open>
  A dry run issues no command, and its result holds the names of the inactive infobases
  once for every cluster of the report.
\<close>

lemma block_inactive_bases_dry:
  "block_inactive_bases config run report True h
     = (concat (map (\<lambda>c. map InfoBase.name (inactive_bases report)) (clusters report)), h)"
  by (simp add: block_inactive_bases_def block_clusters_dry)

lemma two_clusters_report:
  "fst (collect_cluster_info example_config rac_two_clusters example_fromisoformat
          example_clock example_str_exn [])
   = \<lparr>generated_at = Datetime 63839750400000000 None,
      clusters = [\<lparr>cluster_id = ''c1'', Cluster.host = [], Cluster.port = [], Cluster.name = ''Main''\<rparr>,
                  \<lparr>cluster_id = ''c2'', Cluster.host = [], Cluster.port = [], Cluster.name = ''Spare''\<rparr>],
      servers = [],
      infobases = [\<lparr>InfoBase.infobase_id = ''ib3'', InfoBase.name = ''Archive'', descr = [],
                     sessions_deny = ''off'', scheduled_jobs_deny = ''off'', sessions_count = 0,
                     last_session_time = None, is_inactive = True\<rparr>],
      sessions = [],
      inactive_bases = [\<lparr>InfoBase.infobase_id = ''ib3'', InfoBase.name = ''Archive'', descr = [],
                          sessions_deny = ''off'', scheduled_jobs_deny = ''off'', sessions_count = 0,
                          last_session_time = None, is_inactive = True\<rparr>],
      errors = []\<rparr>"
  by code_simp

text \<open>
  Claim C3 has a dry run return each inactive infobase once, however many clusters there
  are. The code at the snapshot collected from two clusters, with the one inactive infobase
  \<open>Archive\<close>: the dry run issues no command and returns the name twice.
\<close>

theorem dry_run_repeats_names:
  "map InfoBase.name
     (inactive_bases (fst (collect_cluster_info example_config rac_two_clusters example_fromisoformat
                             example_clock example_str_exn []))) = [''Archive'']
   \<and> block_inactive_bases example_config rac_two_clusters
        (fst (collect_cluster_info example_config rac_two_clusters example_fromisoformat
                example_clock example_str_exn [])) True []
      = ([''Archive'', ''Archive''], [])"
  by (simp add: block_inactive_bases_dry two_clusters_report)

subsection \<open>The correlation loop\<close>

lemma dt_gt_instant: "dt_gt a b = Inr g \<Longrightarrow> g = (instant a > instant b)"
  by (auto simp: dt_gt_def instant_def split: option.splits)

lemma max_loop_greatest:
  "max_loop m xs = Inr r \<Longrightarrow> r \<in> set (m # xs) \<and> (\<forall>t\<in>set (m # xs). instant t \<le> instant r)"
proof (induction xs arbitrary: m)
  case Nil
  then show ?case by simp
next
  case (Cons x xs)
  from Cons.prems obtain g where g: "dt_gt x m = Inr g"
    and rest: "max_loop (if g then x else m) xs = Inr r"
    by (auto split: sum.splits)
  let ?c = "if g then x else m"
  from Cons.IH [OF rest] have r: "r \<in> set (?c # xs)"
    and top: "\<forall>t\<in>set (?c # xs). instant t \<le> instant r"
    by simp_all
  from dt_gt_instant [OF g] have "instant m \<le> instant ?c" "instant x \<le> instant ?c"
    by auto
  moreover from top have "instant ?c \<le> instant r" by simp
  ultimately have "instant m \<le> instant r" "instant x \<le> instant r" by linarith+
  with r top show ?case by (auto split: if_splits)
qed

lemma py_max_greatest:
  "py_max xs = Inr r \<Longrightarrow> r \<in> set xs \<and> (\<forall>t\<in>set xs. instant t \<le> instant r)"
  by (cases xs) (auto simp: py_max_def dest: max_loop_greatest)

lemma count_sessions_Inr:
  assumes "count_sessions S ib = Inr ib1"
  shows "sessions_count ib1 = int (length (sessions_of S ib))"
    and "InfoBase.infobase_id ib1 = InfoBase.infobase_id ib"
    and "InfoBase.name ib1 = InfoBase.name ib"
    and "is_inactive ib1 = is_inactive ib"
    and "List.map_filter last_active_at (sessions_of S ib) = [] \<Longrightarrow> last_session_time ib1 = last_session_time ib"
    and "List.map_filter last_active_at (sessions_of S ib) \<noteq> [] \<Longrightarrow>
           \<exists>m. last_session_time ib1 = Some m \<and> py_max (List.map_filter last_active_at (sessions_of S ib)) = Inr m"
  using assms
  by (auto simp: count_sessions_def sessions_of_def Let_def map_filter_simps split: if_splits sum.splits)

lemma correlate_Inr:
  "correlate S B r = (Inr B', r') \<Longrightarrow>
     list_all2 (\<lambda>ib ib'. \<exists>ib1. count_sessions S ib = Inr ib1 \<and> ib' = mark ib1) B B'
     \<and> r' = r\<lparr>inactive_bases := inactive_bases r @ filter (\<lambda>ib. sessions_count ib = 0) B'\<rparr>"
proof (induction B arbitrary: r B')
  case Nil
  then show ?case by simp
next
  case (Cons ib rest)
  from Cons.prems obtain ib1 where c: "count_sessions S ib = Inr ib1"
    by (auto split: sum.splits)
  let ?r1 = "if sessions_count ib1 = 0
             then r\<lparr>inactive_bases := inactive_bases r @ [ib1\<lparr>is_inactive := True\<rparr>]\<rparr> else r"
  from Cons.prems c obtain rest' where rest: "correlate S rest ?r1 = (Inr rest', r')"
    and B': "B' = mark ib1 # rest'"
    by (auto simp: mark_def split: if_splits sum.splits prod.splits)
  from Cons.IH [OF rest] c B' show ?case
    by (auto simp: mark_def)
qed

lemma example_correlate:
  "correlate example_sessions example_bases empty_report
     = (Inr example_bases_done,
        empty_report\<lparr>inactive_bases := [(fresh_base ''ib3'' ''Archive'')\<lparr>is_inactive := True\<rparr>]\<rparr>)"
  by code_simp

text \<open>
  The loop does not always run to its end: \<open>max\<close> raises \<open>TypeError\<close> on time stamps of
  the two kinds, and the loop stops there.
\<close>

lemma correlate_mixed_zones:
  "correlate mixed_sessions example_bases empty_report = (Inl TypeError, empty_report)"
  by code_simp

lemma length_filter_disj:
  "\<forall>x\<in>set xs. \<not> (P x \<and> Q x) \<Longrightarrow>
     length (filter (\<lambda>x. P x \<or> Q x) xs) = length (filter P xs) + length (filter Q xs)"
  by (induction xs) auto

lemma sum_sessions_of:
  "distinct (map InfoBase.infobase_id B) \<Longrightarrow>
     (\<Sum>ib\<leftarrow>B. int (length (sessions_of S ib))) = int (length (matched_sessions S B))"
proof (induction B)
  case Nil
  then show ?case by (simp add: matched_sessions_def)
next
  case (Cons ib rest)
  have "length (matched_sessions S (ib # rest))
          = length (sessions_of S ib) + length (matched_sessions S rest)"
    unfolding matched_sessions_def sessions_of_def using Cons.prems
    by (subst length_filter_disj [symmetric]) (auto intro!: arg_cong [where f = length] filter_cong)
  with Cons show ?case by simp
qed

lemma correlate_counts:
  "correlate S B r = (Inr B', r') \<Longrightarrow>
     map sessions_count B' = map (\<lambda>ib. int (length (sessions_of S ib))) B"
  by (drule correlate_Inr, erule conjE, thin_tac "r' = _", induction B B' rule: list_all2_induct)
     (auto simp: mark_def dest: count_sessions_Inr(1))

lemma set_active_times:
  "set (List.map_filter last_active_at xs) = {t. \<exists>s\<in>set xs. last_active_at s = Some t}"
  by (induction xs) (auto simp: map_filter_simps split: option.splits)

lemma count_sessions_latest:
  assumes "count_sessions S ib = Inr ib1" and "last_session_time ib = None"
  shows "(last_session_time ib1 = None \<longleftrightarrow> (\<forall>s\<in>set (sessions_of S ib). last_active_at s = None))
       \<and> (\<forall>m. last_session_time ib1 = Some m \<longrightarrow>
               (\<exists>s\<in>set (sessions_of S ib). last_active_at s = Some m)
             \<and> (\<forall>s\<in>set (sessions_of S ib). \<forall>t. last_active_at s = Some t \<longrightarrow> instant t \<le> instant m))"
proof (cases "List.map_filter last_active_at (sessions_of S ib) = []")
  case True
  have "last_active_at s = None" if "s \<in> set (sessions_of S ib)" for s
  proof (cases "last_active_at s")
    case None
    then show ?thesis .
  next
    case (Some t)
    with that have "t \<in> set (List.map_filter last_active_at (sessions_of S ib))"
      unfolding set_active_times by blast
    with True show ?thesis by simp
  qed
  then have "\<forall>s\<in>set (sessions_of S ib). last_active_at s = None"
    by blast
  with count_sessions_Inr(5) [OF assms(1) True] assms(2) show ?thesis by simp
next
  case False
  from count_sessions_Inr(6) [OF assms(1) False] obtain m
    where m: "last_session_time ib1 = Some m"
      and mx: "py_max (List.map_filter last_active_at (sessions_of S ib)) = Inr m"
    by blast
  from py_max_greatest [OF mx] have "m \<in> set (List.map_filter last_active_at (sessions_of S ib))"
    and "\<forall>t\<in>set (List.map_filter last_active_at (sessions_of S ib)). instant t \<le> instant m"
    by simp_all
  then have "\<exists>s\<in>set (sessions_of S ib). last_active_at s = Some m"
    and "\<forall>s\<in>set (sessions_of S ib). \<forall>t. last_active_at s = Some t \<longrightarrow> instant t \<le> instant m"
    unfolding set_active_times by auto
  with m show ?thesis by auto
qed

text \<open>
  Claim C1, as the specification states it, has the sum of \<open>sessions_count\<close> equal to the
  number of sessions that match some infobase. Two infobases with the identifier \<open>ib1\<close>
  and one session of \<open>ib1\<close>: both infobases count the session, the sum is 2, and one
  session matches.
\<close>

theorem sessions_sum_counterexample:
  "fst (correlate [example_session ''s1'' ''ib1'' None] twin_bases empty_report) = Inr twin_bases_done
   \<and> sum_list (map sessions_count twin_bases_done) = 2
   \<and> int (length (matched_sessions [example_session ''s1'' ''ib1'' None] twin_bases)) = 1"
  by code_simp

text \<open>
  Claim C1, amended. After the loop over the infobases \<open>B\<close> with the sessions \<open>S\<close> has run
  to its end, the \<open>sessions_count\<close> of every infobase is the number of sessions of \<open>S\<close> with
  its identifier; and when the identifiers of \<open>B\<close> are distinct, the sum of the counts is
  the number of sessions of \<open>S\<close> whose identifier is that of some infobase of \<open>B\<close>.
\<close>

theorem sessions_count_matches:
  assumes "correlate S B report = (Inr B', report')"
  shows "map sessions_count B' = map (\<lambda>ib. int (length (sessions_of S ib))) B
         \<and> (distinct (map InfoBase.infobase_id B) \<longrightarrow>
              sum_list (map sessions_count B') = int (length (matched_sessions S B)))"
  using correlate_counts [OF assms] sum_sessions_of [of B S] by simp

theorem sessions_count_matches_witness:
  "correlate example_sessions example_bases empty_report
     = (Inr example_bases_done,
        empty_report\<lparr>inactive_bases := [(fresh_base ''ib3'' ''Archive'')\<lparr>is_inactive := True\<rparr>]\<rparr>)
   \<and> distinct (map InfoBase.infobase_id example_bases)
   \<and> map sessions_count example_bases_done = map (\<lambda>ib. int (length (sessions_of example_sessions ib))) example_bases
   \<and> sum_list (map sessions_count example_bases_done) = int (length (matched_sessions example_sessions example_bases))"
proof -
  have d: "distinct (map InfoBase.infobase_id example_bases)"
    by code_simp
  from sessions_count_matches [OF example_correlate]
  have counts: "map sessions_count example_bases_done
                  = map (\<lambda>ib. int (length (sessions_of example_sessions ib))) example_bases"
    and total: "distinct (map InfoBase.infobase_id example_bases) \<longrightarrow>
                  sum_list (map sessions_count example_bases_done)
                    = int (length (matched_sessions example_sessions example_bases))"
    by blast+
  from total d have "sum_list (map sessions_count example_bases_done)
                       = int (length (matched_sessions example_sessions example_bases))"
    by blast
  with example_correlate d counts show ?thesis by blast
qed

text \<open>
  Claim C2. After the loop has run to its end over infobases as \<open>get_infobases\<close> builds
  them (\<open>is_inactive\<close> false), \<open>is_inactive\<close> holds exactly for the infobases whose
  \<open>sessions_count\<close> is 0, the infobases are in their order, and the loop has appended to
  \<open>inactive_bases\<close> exactly the infobases without sessions, in that order.
\<close>

theorem inactive_iff_no_sessions:
  assumes "correlate S B report = (Inr B', report')"
    and "\<forall>ib\<in>set B. \<not> is_inactive ib"
  shows "(\<forall>ib\<in>set B'. is_inactive ib \<longleftrightarrow> sessions_count ib = 0)
       \<and> map InfoBase.infobase_id B' = map InfoBase.infobase_id B
       \<and> map InfoBase.name B' = map InfoBase.name B
       \<and> inactive_bases report' = inactive_bases report @ filter (\<lambda>ib. sessions_count ib = 0) B'"
proof -
  from correlate_Inr [OF assms(1)]
  have rel: "list_all2 (\<lambda>ib ib'. \<exists>ib1. count_sessions S ib = Inr ib1 \<and> ib' = mark ib1) B B'"
    and rep: "report' = report\<lparr>inactive_bases := inactive_bases report @ filter (\<lambda>ib. sessions_count ib = 0) B'\<rparr>"
    by simp_all
  from rel
  have "list_all2 (\<lambda>ib ib'. (is_inactive ib' \<longleftrightarrow> sessions_count ib' = 0)
                     \<and> InfoBase.infobase_id ib' = InfoBase.infobase_id ib
                     \<and> InfoBase.name ib' = InfoBase.name ib) B B'"
  proof (rule list.rel_mono_strong)
    fix ib ib'
    assume "ib \<in> set B" and "\<exists>ib1. count_sessions S ib = Inr ib1 \<and> ib' = mark ib1"
    then obtain ib1 where c: "count_sessions S ib = Inr ib1" and ib': "ib' = mark ib1"
      and fresh: "\<not> is_inactive ib"
      using assms(2) by blast
    from count_sessions_Inr(2,3,4) [OF c] fresh
    show "(is_inactive ib' \<longleftrightarrow> sessions_count ib' = 0)
          \<and> InfoBase.infobase_id ib' = InfoBase.infobase_id ib
          \<and> InfoBase.name ib' = InfoBase.name ib"
      by (simp add: ib' mark_def)
  qed
  then have "(\<forall>ib\<in>set B'. is_inactive ib \<longleftrightarrow> sessions_count ib = 0)"
    and "map InfoBase.infobase_id B' = map InfoBase.infobase_id B"
    and "map InfoBase.name B' = map InfoBase.name B"
    by (induction B B' rule: list_all2_induct) auto
  with rep show ?thesis by simp
qed

theorem inactive_iff_no_sessions_witness:
  "correlate example_sessions example_bases empty_report
     = (Inr example_bases_done,
        empty_report\<lparr>inactive_bases := [(fresh_base ''ib3'' ''Archive'')\<lparr>is_inactive := True\<rparr>]\<rparr>)
   \<and> map is_inactive example_bases = [False, False, False]
   \<and> map sessions_count example_bases_done = [2, 1, 0]
   \<and> map is_inactive example_bases_done = [False, False, True]
   \<and> map InfoBase.infobase_id example_bases_done = map InfoBase.infobase_id example_bases
   \<and> map InfoBase.name example_bases_done = map InfoBase.name example_bases
   \<and> inactive_bases (empty_report\<lparr>inactive_bases := [(fresh_base ''ib3'' ''Archive'')\<lparr>is_inactive := True\<rparr>]\<rparr>)
       = inactive_bases empty_report @ filter (\<lambda>ib. sessions_count ib = 0) example_bases_done"
proof -
  have fresh: "\<forall>ib\<in>set example_bases. \<not> is_inactive ib"
    by (simp add: example_bases_def fresh_base_def)
  have before: "map is_inactive example_bases = [False, False, False]"
    by (simp add: example_bases_def fresh_base_def)
  have counts: "map sessions_count example_bases_done = [2, 1, 0]"
    by (simp add: example_bases_done_def fresh_base_def)
  from inactive_iff_no_sessions [OF example_correlate fresh]
  have flags: "\<forall>ib\<in>set example_bases_done. is_inactive ib \<longleftrightarrow> sessions_count ib = 0"
    and ids: "map InfoBase.infobase_id example_bases_done = map InfoBase.infobase_id example_bases"
    and names: "map InfoBase.name example_bases_done = map InfoBase.name example_bases"
    and appended: "inactive_bases (empty_report\<lparr>inactive_bases := [(fresh_base ''ib3'' ''Archive'')\<lparr>is_inactive := True\<rparr>]\<rparr>)
       = inactive_bases empty_report @ filter (\<lambda>ib. sessions_count ib = 0) example_bases_done"
    by blast+
  from flags have "map is_inactive example_bases_done = map (\<lambda>ib. sessions_count ib = 0) example_bases_done"
    by simp
  also have "\<dots> = [False, False, True]"
    by (simp add: example_bases_done_def fresh_base_def)
  finally have after: "map is_inactive example_bases_done = [False, False, True]" .
  from example_correlate before counts after ids names appended show ?thesis
    by blast
qed

text \<open>
  Claim C4. After the loop has run to its end over infobases as \<open>get_infobases\<close> builds
  them (\<open>last_session_time\<close> absent), \<open>last_session_time\<close> of an infobase is absent exactly
  when none of its sessions has a \<open>last_active_at\<close>; otherwise it is the \<open>last_active_at\<close>
  of one of its sessions, and no session of the infobase has a later one.
\<close>

theorem last_session_time_is_latest:
  assumes "correlate S B report = (Inr B', report')"
    and "\<forall>ib\<in>set B. last_session_time ib = None"
  shows "list_all2 (\<lambda>ib ib'.
            (last_session_time ib' = None \<longleftrightarrow> (\<forall>s\<in>set (sessions_of S ib). last_active_at s = None))
          \<and> (\<forall>m. last_session_time ib' = Some m \<longrightarrow>
                (\<exists>s\<in>set (sessions_of S ib). last_active_at s = Some m)
              \<and> (\<forall>s\<in>set (sessions_of S ib). \<forall>t. last_active_at s = Some t \<longrightarrow> instant t \<le> instant m)))
          B B'"
proof -
  from correlate_Inr [OF assms(1)]
  have "list_all2 (\<lambda>ib ib'. \<exists>ib1. count_sessions S ib = Inr ib1 \<and> ib' = mark ib1) B B'"
    by simp
  then show ?thesis
  proof (rule list.rel_mono_strong)
    fix ib ib'
    assume "ib \<in> set B" and "\<exists>ib1. count_sessions S ib = Inr ib1 \<and> ib' = mark ib1"
    then obtain ib1 where c: "count_sessions S ib = Inr ib1" and ib': "ib' = mark ib1"
      and fresh: "last_session_time ib = None"
      using assms(2) by blast
    have "last_session_time ib' = last_session_time ib1"
      by (simp add: ib' mark_def)
    with count_sessions_latest [OF c fresh]
    show "(last_session_time ib' = None \<longleftrightarrow> (\<forall>s\<in>set (sessions_of S ib). last_active_at s = None))
          \<and> (\<forall>m. last_session_time ib' = Some m \<longrightarrow>
                (\<exists>s\<in>set (sessions_of S ib). last_active_at s = Some m)
              \<and> (\<forall>s\<in>set (sessions_of S ib). \<forall>t. last_active_at s = Some t \<longrightarrow> instant t \<le> instant m))"
      by simp
  qed
qed

theorem last_session_time_is_latest_witness:
  "correlate example_sessions example_bases empty_report
     = (Inr example_bases_done,
        empty_report\<lparr>inactive_bases := [(fresh_base ''ib3'' ''Archive'')\<lparr>is_inactive := True\<rparr>]\<rparr>)
   \<and> map last_session_time example_bases = [None, None, None]
   \<and> map (\<lambda>ib. List.map_filter last_active_at (sessions_of example_sessions ib)) example_bases
       = [[Datetime 63839700000000000 None, Datetime 63839703600000000 None], [], []]
   \<and> map last_session_time example_bases_done = [Some (Datetime 63839703600000000 None), None, None]"
proof -
  have fresh: "\<forall>ib\<in>set example_bases. last_session_time ib = None"
    by (simp add: example_bases_def fresh_base_def)
  have before: "map last_session_time example_bases = [None, None, None]"
    by (simp add: example_bases_def fresh_base_def)
  have times: "map (\<lambda>ib. List.map_filter last_active_at (sessions_of example_sessions ib)) example_bases
       = [[Datetime 63839700000000000 None, Datetime 63839703600000000 None], [], []]"
    by code_simp
  have after: "map last_session_time example_bases_done = [Some (Datetime 63839703600000000 None), None, None]"
    using last_session_time_is_latest [OF example_correlate fresh]
    by (simp add: example_bases_done_def fresh_base_def)
  from example_correlate before times after show ?thesis
    by blast
qed

subsection \<open>The reports\<close>

lemma session_fold:
  "foldl (\<lambda>lines s. (let lines = lines @ [f s] @ [g s]
                       in case started_at s of None \<Rightarrow> lines | Some t \<Rightarrow> lines @ [k t]))
     lines xs
   = lines @ concat (map (\<lambda>s. [f s, g s] @ (case started_at s of None \<Rightarrow> [] | Some t \<Rightarrow> [k t])) xs)"
  by (induction xs arbitrary: lines) (auto split: option.splits)

text \<open>
  Claim C8. The session section adds to the report its heading and the total, the lines of
  the first 20 sessions and of no other session, and then, exactly when the report holds
  more than 20 sessions, the line that tells how many sessions are not listed: the total
  minus 20.
\<close>

theorem session_section_first_20:
  "session_section str_dt report lines =
     lines @ session_heading report
       @ concat (map (session_lines str_dt) (take 20 (sessions report)))
       @ (if length (sessions report) > 20
          then [more_sessions_line (int (length (sessions report)) - 20)] else [])"
  unfolding session_section_def session_fold
  by (simp add: Let_def session_heading_def session_lines_def [abs_def] more_sessions_line_def)

theorem session_section_first_20_witness:
  "length (sessions report_25_sessions) = 25
   \<and> length (session_section example_str_dt report_25_sessions []) = 2 + 20 * 2 + 1
   \<and> last (session_section example_str_dt report_25_sessions []) = more_sessions_line 5"
proof -
  have n: "length (sessions report_25_sessions) = 25"
    by (simp add: report_25_sessions_def)
  have "length (concat (map (session_lines example_str_dt) (take 20 (sessions report_25_sessions)))) = 40"
    by (simp add: report_25_sessions_def session_lines_def example_session_def length_concat
          sum_list_replicate)
  with n session_section_first_20 [of example_str_dt report_25_sessions "[]"]
  show ?thesis
    by (simp add: session_heading_def)
qed

lemma those_decode_infobases:
  "those (map decode_infobase
       (map (\<lambda>ib. JDict [(''id'', JStr (InfoBase.infobase_id ib)),
                          (''name'', JStr (InfoBase.name ib)),
                          (''sessions_count'', JInt (sessions_count ib)),
                          (''is_inactive'', JBool (is_inactive ib)),
                          (''last_session_time'',
                             (case last_session_time ib of
                                None \<Rightarrow> JNull
                              | Some t \<Rightarrow> JStr (isoformat t)))]) ibs))
   = Some (map (\<lambda>ib. (InfoBase.infobase_id ib, InfoBase.name ib, sessions_count ib, is_inactive ib,
                       map_option isoformat (last_session_time ib))) ibs)"
  by (induction ibs) (auto simp: decode_infobase_def split: option.splits)

text \<open>
  Claim C9. With \<open>loads\<close> an inverse of \<open>dumps\<close> (as \<open>json.loads\<close> is of \<open>json.dumps\<close> on
  such documents), decoding the JSON report gives, for the infobases of the snapshot in
  their order, the identifier, the name, \<open>sessions_count\<close> and \<open>is_inactive\<close> of each, and
  its \<open>last_session_time\<close> as the ISO text or null.
\<close>

theorem json_report_roundtrip:
  assumes "\<And>v. loads (dumps v) = Some v"
  shows "Option.bind (loads (generate_json_report dumps isoformat report)) decoded_infobases
         = Some (map (\<lambda>ib. (InfoBase.infobase_id ib, InfoBase.name ib, sessions_count ib,
                             is_inactive ib, map_option isoformat (last_session_time ib)))
                   (infobases report))"
  by (simp add: generate_json_report_def assms json_data_def decoded_infobases_def
        those_decode_infobases del: map_map)

theorem json_report_roundtrip_witness:
  "Option.bind (Some (generate_json_report (\<lambda>v. v) example_isoformat example_report)) decoded_infobases
      = Some [(''ib1'', ''Sales'', 2, False, Some ''2024-01-01T11:00:00''),
              (''ib2'', ''Stock'', 1, False, None),
              (''ib3'', ''Archive'', 0, True, None)]"
  using json_report_roundtrip [of Some "\<lambda>v. v" example_isoformat example_report]
  by (simp add: example_report_def example_bases_done_def fresh_base_def example_isoformat_def
        empty_report_def)

subsection \<open>The record parser\<close>

text \<open>The loop of the parser builds the records of the specification from its lines.\<close>

lemma split_blank_not_Nil [simp]: "split_blank ls \<noteq> []"
  by (induction ls) (auto split: list.splits)

lemma split_blank_run:
  "[] \<notin> set pre \<Longrightarrow> split_blank (pre @ xs) = (pre @ hd (split_blank xs)) # tl (split_blank xs)"
  by (induction pre) (auto split: list.splits)

lemma split_blank_run_blank:
  "[] \<notin> set pre \<Longrightarrow> split_blank (pre @ [] # xs) = pre # split_blank xs"
  by (simp add: split_blank_run)

lemma split_blank_run_end: "[] \<notin> set pre \<Longrightarrow> split_blank pre = [pre]"
  using split_blank_run [of pre "[]"] by simp

lemma update_not_Nil [simp]: "AList.update k v al \<noteq> []"
  by (cases al) auto

lemma build_snoc:
  "build (pre @ [l]) = AList.update (fst (field_of_line l)) (snd (field_of_line l)) (build pre)"
  by (simp add: build_def)

lemma build_Nil_iff: "build pre = [] \<longleftrightarrow> pre = []"
  by (cases pre rule: rev_cases) (simp_all add: build_snoc, simp add: build_def)

lemma map_of_build: "map_of (build pre) = record_of pre"
  by (induction pre rule: rev_induct)
     (simp_all add: build_snoc update_conv' record_of_def, simp add: build_def)

lemma parse_loop_blocks:
  "cur = build pre \<Longrightarrow> [] \<notin> set pre \<Longrightarrow>
     map map_of (finish (parse_loop ls cur items))
       = map map_of items
           @ map record_of (filter (\<lambda>b. b \<noteq> []) (split_blank (pre @ keep (map strip ls))))"
proof (induction ls arbitrary: pre cur items)
  case Nil
  then show ?case
    by (simp add: finish_def keep_def split_blank_run_end build_Nil_iff map_of_build)
next
  case (Cons raw rest)
  show ?case
  proof (cases "strip raw = []")
    case True
    have k: "keep (map strip (raw # rest)) = [] # keep (map strip rest)"
      by (simp add: keep_def True)
    have e: "[] = build []" by (simp add: build_def)
    show ?thesis
    proof (cases "cur = []")
      case c: True
      with Cons.prems have "build pre = []" by simp
      then have "pre = []" by (simp add: build_Nil_iff)
      with Cons.IH [of "[]" "[]" items] c True e show ?thesis
        by (simp add: keep_def)
    next
      case c: False
      with Cons.prems have "build pre \<noteq> []" by simp
      then have p: "pre \<noteq> []" by (simp add: build_Nil_iff)
      from Cons.IH [of "[]" "[]" "items @ [cur]"] c True e p Cons.prems show ?thesis
        by (simp add: keep_def split_blank_run_blank map_of_build)
    qed
  next
    case False
    show ?thesis
    proof (cases "CHR '':'' \<in> set (strip raw)")
      case True
      let ?l = "strip raw"
      have k: "keep (map strip (raw # rest)) = ?l # keep (map strip rest)"
        by (simp add: keep_def True)
      have u: "AList.update (strip (fst (str_partition CHR '':'' ?l)))
                 (strip (snd (snd (str_partition CHR '':'' ?l)))) cur = build (pre @ [?l])"
        by (simp add: build_snoc Cons.prems str_partition_def True field_of_line_def)
      have n: "[] \<notin> set (pre @ [?l])"
        using Cons.prems False by auto
      from Cons.IH [OF u n, of items] False True show ?thesis
        by (simp add: keep_def case_prod_beta Let_def)
    next
      case c: False
      have k: "keep (map strip (raw # rest)) = keep (map strip rest)"
        by (simp add: keep_def False c)
      from Cons.IH [OF Cons.prems, of items] False c show ?thesis
        by (simp add: keep_def)
    qed
  qed
qed

lemma parse_output_blocks:
  "map map_of (parse_output text)
     = map record_of (filter (\<lambda>b. b \<noteq> [])
         (split_blank (keep (map strip (split_on CHR 0x0A (strip text))))))"
  using parse_loop_blocks [of "[]" "[]" "split_on CHR 0x0A (strip text)" "[]"]
  by (simp add: parse_output_def finish_def build_def split: prod.splits)

text \<open>
  Whitespace at the two ends of the output only adds blank lines before the first and after
  the last line, so trimming the output first does not change the records.
\<close>

lemma whitespace_not_Nil: "[] \<notin> set whitespace"
  by (simp add: whitespace_def)

lemma heads_tails_disjoint:
  "set (map hd whitespace) \<inter> set (concat (map tl whitespace)) = {}"
  by (simp add: whitespace_def)

lemma unit_newline: "list_all (\<lambda>u. u = [CHR 0x0A] \<or> CHR 0x0A \<notin> set u) whitespace"
  by (simp add: whitespace_def)

lemma head_len_units:
  "list_all (\<lambda>u. \<forall>x. head_len whitespace (u @ x) = length u) whitespace"
  by (simp add: whitespace_def head_len_def)

lemma head_len_units_rev:
  "list_all (\<lambda>u. \<forall>x. head_len (map rev whitespace) (rev u @ x) = length u) whitespace"
  by (simp add: whitespace_def head_len_def)

lemma head_len_unit: "u \<in> set whitespace \<Longrightarrow> head_len whitespace (u @ x) = length u"
  using head_len_units by (simp add: list_all_iff)

lemma head_len_unit_rev:
  "u \<in> set whitespace \<Longrightarrow> head_len (map rev whitespace) (rev u @ x) = length u"
  using head_len_units_rev by (simp add: list_all_iff)

lemma strip_front_Nil [simp]: "strip_front pats [] = []"
proof -
  have "head_len pats [] = 0"
    by (auto simp: head_len_def find_Some_iff split: option.splits)
  then show ?thesis by (subst strip_front.simps) simp
qed

lemma strip_Nil [simp]: "strip [] = []"
  by (simp add: strip_def lstrip_def rstrip_def)

lemma lstrip_unit: "u \<in> set whitespace \<Longrightarrow> lstrip (u @ x) = lstrip x"
  using whitespace_not_Nil
  by (subst lstrip_def, subst strip_front.simps) (auto simp: head_len_unit lstrip_def)

lemma rstrip_unit: "u \<in> set whitespace \<Longrightarrow> rstrip (x @ u) = rstrip x"
  using whitespace_not_Nil
  by (subst rstrip_def, subst strip_front.simps) (auto simp: head_len_unit_rev rstrip_def)

lemma lstrip_units: "set A \<subseteq> set whitespace \<Longrightarrow> lstrip (concat A @ x) = lstrip x"
  by (induction A) (simp_all add: lstrip_unit)

lemma find_Some_holds: "List.find P xs = Some x \<Longrightarrow> P x \<and> x \<in> set xs"
  by (induction xs) (auto split: if_splits)

lemma head_len_take: "head_len pats s \<noteq> 0 \<Longrightarrow> take (head_len pats s) s \<in> set pats"
proof -
  assume n: "head_len pats s \<noteq> 0"
  then obtain w where f: "List.find (\<lambda>w. prefix w s) pats = Some w"
    by (cases "List.find (\<lambda>w. prefix w s) pats") (auto simp: head_len_def)
  from find_Some_holds [OF f] have "prefix w s" and w: "w \<in> set pats" by simp_all
  then have "take (length w) s = w" by (auto simp: prefix_def)
  with f w show ?thesis by (simp add: head_len_def)
qed

lemma strip_front_decomp: "\<exists>A. set A \<subseteq> set pats \<and> s = concat A @ strip_front pats s"
proof (induction pats s rule: strip_front.induct)
  case (1 pats s)
  show ?case
  proof (cases "head_len pats s = 0")
    case True
    then have "strip_front pats s = s" by (subst strip_front.simps) simp
    then have "set [] \<subseteq> set pats \<and> s = concat [] @ strip_front pats s" by simp
    then show ?thesis by blast
  next
    case False
    let ?n = "head_len pats s"
    from 1 [OF False] obtain A where A: "set A \<subseteq> set pats"
      and d: "drop ?n s = concat A @ strip_front pats (drop ?n s)"
      by blast
    have sf: "strip_front pats s = strip_front pats (drop ?n s)"
      using False by (subst strip_front.simps) simp
    have "s = take ?n s @ drop ?n s" by simp
    also have "\<dots> = concat (take ?n s # A) @ strip_front pats s"
      using d sf by simp
    finally have "s = concat (take ?n s # A) @ strip_front pats s" .
    moreover have "set (take ?n s # A) \<subseteq> set pats"
      using A head_len_take [OF False] by simp
    ultimately show ?thesis by blast
  qed
qed

lemma lstrip_decomp: "\<exists>A. set A \<subseteq> set whitespace \<and> s = concat A @ lstrip s"
  unfolding lstrip_def by (rule strip_front_decomp)

lemma rstrip_decomp: "\<exists>B. set B \<subseteq> set whitespace \<and> s = rstrip s @ concat B"
proof -
  from strip_front_decomp [of "map rev whitespace" "rev s"]
  obtain A where A: "set A \<subseteq> set (map rev whitespace)"
    and d: "rev s = concat A @ strip_front (map rev whitespace) (rev s)"
    by blast
  from d have "s = rev (concat A @ strip_front (map rev whitespace) (rev s))"
    by (metis rev_rev_ident)
  then have "s = rstrip s @ concat (map rev (rev A))"
    by (simp add: rstrip_def rev_concat)
  moreover from A have "set (map rev (rev A)) \<subseteq> set whitespace"
    by auto
  ultimately show ?thesis by blast
qed

lemma head_len_0_iff:
  assumes "[] \<notin> set pats"
  shows "head_len pats s = 0 \<longleftrightarrow> (\<forall>w\<in>set pats. \<not> prefix w s)"
proof
  note nil = assms
  assume z: "head_len pats s = 0"
  show "\<forall>w\<in>set pats. \<not> prefix w s"
  proof (cases "List.find (\<lambda>w. prefix w s) pats")
    case None
    then show ?thesis by (simp add: find_None_iff)
  next
    case (Some w)
    from find_Some_holds [OF Some] z Some nil show ?thesis
      by (auto simp: head_len_def)
  qed
next
  assume "\<forall>w\<in>set pats. \<not> prefix w s"
  then have "List.find (\<lambda>w. prefix w s) pats = None" by (simp add: find_None_iff)
  then show "head_len pats s = 0" by (simp add: head_len_def)
qed

lemma strip_front_head: "head_len pats (strip_front pats s) = 0"
  by (induction pats s rule: strip_front.induct) (subst strip_front.simps, simp)

lemma strip_front_fixed: "head_len pats s = 0 \<Longrightarrow> strip_front pats s = s"
  by (subst strip_front.simps) simp

lemma strip_unit_left: "u \<in> set whitespace \<Longrightarrow> strip (u @ l) = strip l"
  by (simp add: strip_def lstrip_unit)

lemma lstrip_snoc_unit:
  assumes u: "u \<in> set whitespace" and r: "lstrip l \<noteq> []"
  shows "lstrip (l @ u) = lstrip l @ u"
proof -
  from lstrip_decomp [of l] obtain A where A: "set A \<subseteq> set whitespace"
    and l: "l = concat A @ lstrip l"
    by blast
  let ?r = "lstrip l"
  have h0: "head_len whitespace ?r = 0"
    unfolding lstrip_def by (rule strip_front_head)
  have "\<not> prefix w (?r @ u)" if w: "w \<in> set whitespace" for w
  proof
    assume p: "prefix w (?r @ u)"
    from h0 w have "\<not> prefix w ?r"
      by (simp add: head_len_0_iff [OF whitespace_not_Nil])
    with p obtain v where wv: "w = ?r @ v" and pv: "prefix v u"
      by (auto simp: prefix_append)
    from wv \<open>\<not> prefix w ?r\<close> have v: "v \<noteq> []" by auto
    with pv have "hd v = hd u" by (auto simp: prefix_def)
    moreover from wv r v have "hd v \<in> set (tl w)" by (cases ?r) auto
    ultimately have "hd u \<in> set (tl w)" by simp
    moreover from u have "hd u \<in> set (map hd whitespace)" by simp
    moreover from w have "set (tl w) \<subseteq> set (concat (map tl whitespace))" by auto
    ultimately show False using heads_tails_disjoint by blast
  qed
  then have "head_len whitespace (?r @ u) = 0"
    by (simp add: head_len_0_iff [OF whitespace_not_Nil])
  then have "lstrip (?r @ u) = ?r @ u"
    unfolding lstrip_def by (rule strip_front_fixed)
  moreover have "lstrip (l @ u) = lstrip (?r @ u)"
    using lstrip_units [OF A, of "?r @ u"] l by (metis append.assoc)
  ultimately show ?thesis by simp
qed

lemma lstrip_all_units: "set A \<subseteq> set whitespace \<Longrightarrow> lstrip (concat A) = []"
  using lstrip_units [of A "[]"] by (simp add: lstrip_def)

lemma strip_unit_right:
  assumes u: "u \<in> set whitespace"
  shows "strip (l @ u) = strip l"
proof (cases "lstrip l = []")
  case True
  from lstrip_decomp [of l] True obtain A where A: "set A \<subseteq> set whitespace" and l: "l = concat A"
    by auto
  from A u have "set (A @ [u]) \<subseteq> set whitespace" by simp
  from lstrip_all_units [OF this] l have "lstrip (l @ u) = []" by simp
  with True show ?thesis by (simp add: strip_def)
next
  case False
  from lstrip_snoc_unit [OF u False] show ?thesis
    by (simp add: strip_def rstrip_unit [OF u])
qed

lemma split_on_not_Nil [simp]: "split_on c s \<noteq> []"
  by (induction s) (auto split: list.splits)

lemma split_on_append_nosep:
  "c \<notin> set u \<Longrightarrow> split_on c (u @ x) = (u @ hd (split_on c x)) # tl (split_on c x)"
  by (induction u) (auto split: list.splits)

lemma split_on_snoc_sep: "split_on c (x @ [c]) = split_on c x @ [[]]"
  by (induction x) (auto split: list.splits)

lemma split_on_snoc_nosep:
  "c \<notin> set u \<Longrightarrow> split_on c (x @ u) = butlast (split_on c x) @ [last (split_on c x) @ u]"
proof (induction x)
  case Nil
  then show ?case using split_on_append_nosep [of c u "[]"] by simp
next
  case (Cons a x)
  then show ?case by (auto split: list.splits)
qed

lemma unit_newline_cases: "u \<in> set whitespace \<Longrightarrow> u = [CHR 0x0A] \<or> CHR 0x0A \<notin> set u"
  using unit_newline by (simp add: list_all_iff)

lemma lines_unit_left:
  assumes u: "u \<in> set whitespace"
  shows "\<exists>k. map strip (split_on CHR 0x0A (u @ x)) = replicate k [] @ map strip (split_on CHR 0x0A x)"
proof (cases "u = [CHR 0x0A]")
  case True
  then have "map strip (split_on CHR 0x0A (u @ x)) = replicate 1 [] @ map strip (split_on CHR 0x0A x)"
    by simp
  then show ?thesis by blast
next
  case False
  with unit_newline_cases [OF u] have n: "CHR 0x0A \<notin> set u" by simp
  let ?L = "split_on CHR 0x0A x"
  have "map strip (split_on CHR 0x0A (u @ x)) = strip (hd ?L) # map strip (tl ?L)"
    by (simp add: split_on_append_nosep [OF n] strip_unit_left [OF u])
  also have "\<dots> = map strip ?L"
    by (cases ?L) simp_all
  finally have "map strip (split_on CHR 0x0A (u @ x)) = replicate 0 [] @ map strip ?L"
    by simp
  then show ?thesis by blast
qed

lemma lines_units_left:
  "set A \<subseteq> set whitespace \<Longrightarrow>
     \<exists>k. map strip (split_on CHR 0x0A (concat A @ x)) = replicate k [] @ map strip (split_on CHR 0x0A x)"
proof (induction A)
  case Nil
  have "map strip (split_on CHR 0x0A (concat [] @ x)) = replicate 0 [] @ map strip (split_on CHR 0x0A x)"
    by simp
  then show ?case by blast
next
  case (Cons u A)
  then obtain k where k: "map strip (split_on CHR 0x0A (concat A @ x))
                            = replicate k [] @ map strip (split_on CHR 0x0A x)"
    by auto
  from Cons.prems have "u \<in> set whitespace" by simp
  from lines_unit_left [OF this, of "concat A @ x"] obtain j
    where "map strip (split_on CHR 0x0A (u @ concat A @ x))
             = replicate j [] @ map strip (split_on CHR 0x0A (concat A @ x))"
    by blast
  with k have "map strip (split_on CHR 0x0A (concat (u # A) @ x))
                 = replicate (j + k) [] @ map strip (split_on CHR 0x0A x)"
    by (simp add: replicate_add)
  then show ?case by blast
qed

lemma lines_unit_right:
  assumes u: "u \<in> set whitespace"
  shows "\<exists>k. map strip (split_on CHR 0x0A (x @ u)) = map strip (split_on CHR 0x0A x) @ replicate k []"
proof (cases "u = [CHR 0x0A]")
  case True
  then have "map strip (split_on CHR 0x0A (x @ u)) = map strip (split_on CHR 0x0A x) @ replicate 1 []"
    by (simp add: split_on_snoc_sep)
  then show ?thesis by blast
next
  case False
  with unit_newline_cases [OF u] have n: "CHR 0x0A \<notin> set u" by simp
  let ?L = "split_on CHR 0x0A x"
  have "map strip (split_on CHR 0x0A (x @ u)) = map strip (butlast ?L) @ [strip (last ?L)]"
    by (simp add: split_on_snoc_nosep [OF n] strip_unit_right [OF u])
  also have "\<dots> = map strip (butlast ?L @ [last ?L])"
    by (simp only: map_append list.map)
  also have "butlast ?L @ [last ?L] = ?L"
    by simp
  finally have "map strip (split_on CHR 0x0A (x @ u)) = map strip ?L @ replicate 0 []"
    by simp
  then show ?thesis by blast
qed

lemma lines_units_right:
  "set B \<subseteq> set whitespace \<Longrightarrow>
     \<exists>k. map strip (split_on CHR 0x0A (x @ concat B)) = map strip (split_on CHR 0x0A x) @ replicate k []"
proof (induction B arbitrary: x)
  case Nil
  have "map strip (split_on CHR 0x0A (x @ concat [])) = map strip (split_on CHR 0x0A x) @ replicate 0 []"
    by simp
  then show ?case by blast
next
  case (Cons u B)
  from Cons.prems have u: "u \<in> set whitespace" and B: "set B \<subseteq> set whitespace" by simp_all
  from Cons.IH [OF B, of "x @ u"] obtain k
    where k: "map strip (split_on CHR 0x0A ((x @ u) @ concat B))
                = map strip (split_on CHR 0x0A (x @ u)) @ replicate k []"
    by blast
  from lines_unit_right [OF u, of x] obtain j
    where "map strip (split_on CHR 0x0A (x @ u)) = map strip (split_on CHR 0x0A x) @ replicate j []"
    by blast
  with k have "map strip (split_on CHR 0x0A (x @ concat (u # B)))
                 = map strip (split_on CHR 0x0A x) @ replicate (j + k) []"
    by (simp add: replicate_add)
  then show ?case by blast
qed

lemma trimmed_lines_strip:
  "\<exists>a b. trimmed_lines out = replicate a [] @ trimmed_lines (strip out) @ replicate b []"
proof -
  from lstrip_decomp [of out] obtain A where A: "set A \<subseteq> set whitespace"
    and l: "out = concat A @ lstrip out"
    by blast
  from rstrip_decomp [of "lstrip out"] obtain B where B: "set B \<subseteq> set whitespace"
    and r: "lstrip out = strip out @ concat B"
    by (auto simp: strip_def)
  from lines_units_left [OF A, of "lstrip out"] l obtain a
    where a: "trimmed_lines out = replicate a [] @ trimmed_lines (lstrip out)"
    by (auto simp: trimmed_lines_def)
  from lines_units_right [OF B, of "strip out"] r obtain b
    where b: "trimmed_lines (lstrip out) = trimmed_lines (strip out) @ replicate b []"
    by (auto simp: trimmed_lines_def)
  from a b show ?thesis by auto
qed

lemma keep_padded:
  "keep (replicate a [] @ xs @ replicate b []) = replicate a [] @ keep xs @ replicate b []"
  by (simp add: keep_def)

lemma split_blank_snoc_blank: "split_blank (xs @ [[]]) = split_blank xs @ [[]]"
  by (induction xs) (auto split: list.splits)

lemma blocks_leading: "filter (\<lambda>b. b \<noteq> []) (split_blank (replicate a [] @ xs)) = filter (\<lambda>b. b \<noteq> []) (split_blank xs)"
  by (induction a) simp_all

lemma blocks_trailing: "filter (\<lambda>b. b \<noteq> []) (split_blank (xs @ replicate b [])) = filter (\<lambda>b. b \<noteq> []) (split_blank xs)"
proof (induction b)
  case 0
  then show ?case by simp
next
  case (Suc b)
  have "xs @ replicate (Suc b) [] = (xs @ replicate b []) @ [[]]"
    by (simp add: replicate_append_same)
  with Suc show ?case by (simp only: split_blank_snoc_blank) simp
qed

text \<open>
  Claim C5. For every output, the dictionaries that \<open>_parse_output\<close> returns are, read
  as mappings from keys to values, the records of the specification: the lines are trimmed,
  lines without a colon are ignored, records end at blank lines and at the end of the
  output, a line is split at its first colon into a trimmed key and a trimmed value, and
  the last value written for a key is the one kept. The empty output gives no record.
\<close>

theorem parse_output_refines_spec:
  "map map_of (parse_output out) = parse_spec out \<and> parse_output [] = []"
proof -
  from trimmed_lines_strip [of out] obtain a b
    where "trimmed_lines out = replicate a [] @ trimmed_lines (strip out) @ replicate b []"
    by blast
  then have "filter (\<lambda>b. b \<noteq> []) (split_blank (keep (trimmed_lines out)))
               = filter (\<lambda>b. b \<noteq> []) (split_blank (keep (trimmed_lines (strip out))))"
    by (simp only: keep_padded blocks_leading) (simp only: append_assoc [symmetric] blocks_trailing)
  then have "map map_of (parse_output out) = parse_spec out"
    by (simp add: parse_output_blocks parse_spec_def trimmed_lines_def keep_def)
  moreover have "parse_output [] = []"
    by (simp add: parse_output_def)
  ultimately show ?thesis by simp
qed

theorem parse_output_refines_spec_witness:
  "parse_output example_output = [[(''a'', ''2:3'')], [(''b'', [])]]
   \<and> parse_spec example_output = [map_of [(''a'', ''2:3'')], map_of [(''b'', [])]]"
proof -
  have "parse_output example_output = [[(''a'', ''2:3'')], [(''b'', [])]]"
    by code_simp
  with parse_output_refines_spec [of example_output] show ?thesis
    by simp
qed

subsection \<open>The error text of a mutation\<close>

text \<open>A text in which \<open>error\<close> occurs is not blank, so \<open>_execute_command\<close> hands it on.\<close>

lemma strip_Nil_units:
  assumes "strip s = []"
  shows "\<exists>A. set A \<subseteq> set whitespace \<and> s = concat A"
proof -
  from lstrip_decomp [of s] obtain A where A: "set A \<subseteq> set whitespace"
    and l: "s = concat A @ lstrip s"
    by blast
  from rstrip_decomp [of "lstrip s"] assms obtain B where B: "set B \<subseteq> set whitespace"
    and r: "lstrip s = concat B"
    by (auto simp: strip_def)
  from l r have "s = concat (A @ B)" by simp
  moreover from A B have "set (A @ B) \<subseteq> set whitespace" by simp
  ultimately show ?thesis by blast
qed

lemma units_no_letter_e:
  "list_all (\<lambda>u. list_all (\<lambda>c. lower_char c \<noteq> CHR ''e'') u) whitespace"
  by (simp add: whitespace_def lower_char_def)

lemma error_text_not_blank:
  assumes "sublist ''error'' (lower out)"
  shows "strip out \<noteq> []"
proof
  assume "strip out = []"
  from strip_Nil_units [OF this] obtain A where A: "set A \<subseteq> set whitespace" and o: "out = concat A"
    by blast
  from assms have "CHR ''e'' \<in> set (lower out)"
    by (auto simp: sublist_def)
  then obtain c where c: "c \<in> set out" and e: "lower_char c = CHR ''e''"
    by (auto simp: lower_def)
  from c o obtain u where "u \<in> set A" and "c \<in> set u" by auto
  with A units_no_letter_e have "lower_char c \<noteq> CHR ''e''"
    by (auto simp: list_all_iff)
  with e show False by simp
qed

lemma execute_command_error_stdout:
  "run h cmd = Completed 0 out err \<Longrightarrow> sublist ''error'' (lower out) \<Longrightarrow>
     fst (execute_command run h cmd) = out"
  by (simp add: execute_command_def error_text_not_blank)

text \<open>
  Claim C7, as the specification states it, has a mutation operation return false whenever
  \<open>error\<close> occurs in the standard output, and \<open>block_infobase\<close> return true exactly when
  the output is not empty and free of \<open>error\<close>. With the exit status 1 the standard output
  is dropped: \<open>terminate_session\<close> returns true although the output is an error text, and
  \<open>block_infobase\<close> returns false although the output is \<open>ok\<close>.
\<close>

theorem error_text_is_failure_counterexample:
  "rac_exit1_error_text [] (terminate_session_cmd example_config ''c1'' ''s1'')
     = Completed 1 ''Error: session not found'' []
   \<and> sublist ''error'' (lower ''Error: session not found'')
   \<and> fst (terminate_session example_config rac_exit1_error_text ''c1'' ''s1'' [])
   \<and> rac_exit1_ok [] (block_infobase_cmd example_config ''c1'' ''b1'' True True ''m'')
     = Completed 1 ''ok'' []
   \<and> ''ok'' \<noteq> []
   \<and> \<not> sublist ''error'' (lower ''ok'')
   \<and> \<not> fst (block_infobase example_config rac_exit1_ok ''c1'' ''b1'' True True ''m'' [])"
proof -
  have "str_in ''error'' (lower ''Error: session not found'')"
    by code_simp
  then have occurs: "sublist ''error'' (lower ''Error: session not found'')"
    by (simp add: str_in_sublist)
  have "\<not> str_in ''error'' (lower ''ok'')"
    by code_simp
  then have absent: "\<not> sublist ''error'' (lower ''ok'')"
    by (simp add: str_in_sublist)
  have "fst (terminate_session example_config rac_exit1_error_text ''c1'' ''s1'' [])"
    by (simp add: terminate_session_def execute_command_def rac_exit1_error_text_def)
  moreover have "\<not> fst (block_infobase example_config rac_exit1_ok ''c1'' ''b1'' True True ''m'' [])"
    by (simp add: block_infobase_def execute_command_def rac_exit1_ok_def)
  ultimately show ?thesis
    using occurs absent by (simp add: rac_exit1_error_text_def rac_exit1_ok_def)
qed

text \<open>
  Claim C7, amended. Let \<open>output\<close> be the text that \<open>_execute_command\<close> hands to a
  mutation operation: the standard output when the exit status is 0 and the standard
  output is not blank, the empty text otherwise. \<open>unblock_infobase\<close> and
  \<open>terminate_session\<close> return false whenever \<open>error\<close> occurs in the lower-case form of
  \<open>output\<close>, and \<open>block_infobase\<close> returns true exactly when \<open>output\<close> is not empty and
  \<open>error\<close> does not occur in its lower-case form. In terms of the external call: when it
  exits with status 0 and \<open>error\<close> occurs in the lower-case form of its standard output,
  each of the three operations returns false; and \<open>block_infobase\<close> returns true exactly
  when the call exits with status 0 and its standard output is not blank and has no
  \<open>error\<close> in its lower-case form.
\<close>

theorem error_text_is_failure:
  "(fst (block_infobase config run cid ibid sd jd msg h) \<longleftrightarrow>
      fst (execute_command run h (block_infobase_cmd config cid ibid sd jd msg)) \<noteq> []
      \<and> \<not> sublist ''error''
            (lower (fst (execute_command run h (block_infobase_cmd config cid ibid sd jd msg)))))
   \<and> (sublist ''error''
         (lower (fst (execute_command run h (block_infobase_cmd config cid ibid False False []))))
        \<longrightarrow> \<not> fst (unblock_infobase config run cid ibid h))
   \<and> (sublist ''error'' (lower (fst (execute_command run h (terminate_session_cmd config cid sid))))
        \<longrightarrow> \<not> fst (terminate_session config run cid sid h))
   \<and> (sublist ''error'' (lower out) \<longrightarrow>
        (run h (block_infobase_cmd config cid ibid sd jd msg) = Completed 0 out err
           \<longrightarrow> \<not> fst (block_infobase config run cid ibid sd jd msg h))
        \<and> (run h (block_infobase_cmd config cid ibid False False []) = Completed 0 out err
           \<longrightarrow> \<not> fst (unblock_infobase config run cid ibid h))
        \<and> (run h (terminate_session_cmd config cid sid) = Completed 0 out err
           \<longrightarrow> \<not> fst (terminate_session config run cid sid h)))
   \<and> (run h (block_infobase_cmd config cid ibid sd jd msg) = Completed rc out err \<longrightarrow>
        (fst (block_infobase config run cid ibid sd jd msg h) \<longleftrightarrow>
           rc = 0 \<and> strip out \<noteq> [] \<and> \<not> sublist ''error'' (lower out)))"
proof -
  have block: "fst (block_infobase config run cid ibid sd jd msg h) \<longleftrightarrow>
      fst (execute_command run h (block_infobase_cmd config cid ibid sd jd msg)) \<noteq> []
      \<and> \<not> sublist ''error''
            (lower (fst (execute_command run h (block_infobase_cmd config cid ibid sd jd msg))))"
    for sd jd msg
    by (auto simp: block_infobase_def str_in_sublist split: prod.splits)
  have unblock: "sublist ''error''
         (lower (fst (execute_command run h (block_infobase_cmd config cid ibid False False []))))
        \<longrightarrow> \<not> fst (unblock_infobase config run cid ibid h)"
    using block [of False False "[]"] by (simp add: unblock_infobase_def)
  have "terminate": "sublist ''error'' (lower (fst (execute_command run h (terminate_session_cmd config cid sid))))
        \<longrightarrow> \<not> fst (terminate_session config run cid sid h)"
    by (auto simp: terminate_session_def str_in_sublist lower_def split: prod.splits)
  have raw: "sublist ''error'' (lower (fst (execute_command run h cmd)))"
    if "sublist ''error'' (lower out)" and "run h cmd = Completed 0 out err" for cmd
    using that by (simp add: execute_command_error_stdout)
  have status: "fst (block_infobase config run cid ibid sd jd msg h) \<longleftrightarrow>
           rc = 0 \<and> strip out \<noteq> [] \<and> \<not> sublist ''error'' (lower out)"
    if "run h (block_infobase_cmd config cid ibid sd jd msg) = Completed rc out err"
    using that by (auto simp: block_infobase_def execute_command_def str_in_sublist)
  from block [of sd jd msg] unblock "terminate" raw status show ?thesis
    by blast
qed

theorem error_text_is_failure_witness:
  "sublist ''error''
     (lower (fst (execute_command rac_error_text [] (block_infobase_cmd example_config ''c1'' ''b1'' False False []))))
   \<and> \<not> fst (unblock_infobase example_config rac_error_text ''c1'' ''b1'' [])
   \<and> sublist ''error''
     (lower (fst (execute_command rac_error_text [] (terminate_session_cmd example_config ''c1'' ''s1''))))
   \<and> \<not> fst (terminate_session example_config rac_error_text ''c1'' ''s1'' [])
   \<and> \<not> fst (block_infobase example_config rac_error_text ''c1'' ''b1'' True True ''m'' [])"
proof -
  have "str_in ''error'' (lower ''Internal ERROR'')"
    by code_simp
  then have occurs: "sublist ''error'' (lower ''Internal ERROR'')"
    by (simp add: str_in_sublist)
  show ?thesis
    using occurs
      error_text_is_failure [of example_config rac_error_text "''c1''" "''b1''" True True "''m''" "[]" "''s1''"
                               "''Internal ERROR''" "[]" 0]
    by (simp add: execute_command_error_text)
qed

end
